theory Spec2Isabelle
  imports Main "HOL-Library.Char_ord" "HOL-Library.List_Lexorder"
begin

section \<open>Configuration constants\<close>

text \<open>
  The repository holds two variants of the echo server: \<^verbatim>\<open>src/unnamed/part_000\<close> (lazy
  shared connection, 20 ms ticker) and \<^verbatim>\<open>src/server.go\<close> (one dial in \<^verbatim>\<open>main\<close>, 1 s
  ticker). Definitions keep the source's names; those translated from \<^verbatim>\<open>server.go\<close>
  carry the suffix \<open>_server\<close>. The struct declarations \<^verbatim>\<open>Response\<close> and \<^verbatim>\<open>Rx\<close> are
  the same text in both files and are modelled once.
\<close>

definition ServerAddr :: string where
  "ServerAddr = ''192.168.253.8:8080''"

definition ProcessorAddr :: string where
  "ProcessorAddr = ''192.168.253.254:8081''"

definition testLabel :: string where
  "testLabel = ''Lbl_Time''"

definition dontToggleButtons :: "string list" where
  "dontToggleButtons = [''Btn_NoTog'']"

definition dontToggleButtons_server :: "string list" where
  "dontToggleButtons_server = [''Btn_NoTog'']"

definition contentType :: string where
  "contentType = ''application/json''"

section \<open>Data model\<close>

record Response =
  Type :: string
  Object :: string
  Function :: string
  Arg1 :: string
  Arg2 :: string
  Arg3 :: string

record Rx =
  Name :: string
  Action :: string
  Value :: string

text \<open>
  A Go struct literal leaves the fields it does not name at their zero value, the empty
  string.
\<close>

section \<open>The JSON encoder of the Go library\<close>

text \<open>
  \<^verbatim>\<open>json.Marshal\<close> belongs to Go's standard library, not to the repository. It is modelled
  after the documentation and the code of \<^verbatim>\<open>encoding/json\<close> (Go 1.22 and later), on the
  values that matter here: strings, structs, and the kinds the encoder refuses (channel,
  function and complex values make it return an \<^verbatim>\<open>UnsupportedTypeError\<close>).
\<close>

datatype go_value =
    GoString string
  | GoStruct "(string \<times> go_value) list"
  | GoUnsupported string

definition RuneError :: nat where
  "RuneError = 0xFFFD"

definition continuation :: "nat \<Rightarrow> nat \<Rightarrow> nat \<Rightarrow> bool" where
  "continuation lo hi b \<longleftrightarrow> lo \<le> b \<and> b \<le> hi"

text \<open>
  \<^verbatim>\<open>utf8.DecodeRuneInString\<close> on the bytes of the string: the rune and the number of bytes
  it takes; \<open>(RuneError, 1)\<close> for a byte that starts no valid encoding.
\<close>

fun DecodeRune :: "nat list \<Rightarrow> nat \<times> nat" where
  "DecodeRune [] = (RuneError, 0)"
| "DecodeRune (s0 # rest) =
     (if s0 < 0x80 then (s0, 1)
      else if s0 < 0xC2 \<or> 0xF4 < s0 then (RuneError, 1)
      else
        let sz = (if s0 < 0xE0 then 2 else if s0 < 0xF0 then 3 else 4 :: nat);
            lo = (if s0 = 0xE0 then 0xA0 else if s0 = 0xF0 then 0x90 else 0x80);
            hi = (if s0 = 0xED then 0x9F else if s0 = 0xF4 then 0x8F else 0xBF)
        in if length (s0 # rest) < sz then (RuneError, 1)
           else
             (case rest of
                s1 # rest1 \<Rightarrow>
                  if \<not> continuation lo hi s1 then (RuneError, 1)
                  else if sz \<le> 2 then ((s0 mod 0x20) * 0x40 + s1 mod 0x40, 2)
                  else
                    (case rest1 of
                       s2 # rest2 \<Rightarrow>
                         if \<not> continuation 0x80 0xBF s2 then (RuneError, 1)
                         else if sz \<le> 3
                           then ((s0 mod 0x10) * 0x1000 + (s1 mod 0x40) * 0x40 + s2 mod 0x40, 3)
                         else
                           (case rest2 of
                              s3 # _ \<Rightarrow>
                                if \<not> continuation 0x80 0xBF s3 then (RuneError, 1)
                                else ((s0 mod 0x08) * 0x40000 + (s1 mod 0x40) * 0x1000
                                        + (s2 mod 0x40) * 0x40 + s3 mod 0x40, 4)
                            | [] \<Rightarrow> (RuneError, 1))
                     | [] \<Rightarrow> (RuneError, 1))
              | [] \<Rightarrow> (RuneError, 1)))"

definition DecodeRuneInString :: "string \<Rightarrow> nat \<times> nat" where
  "DecodeRuneInString s = DecodeRune (map of_char s)"

definition hex :: "nat \<Rightarrow> char" where
  "hex n = ''0123456789abcdef'' ! (n mod 16)"

definition backslash :: char where
  "backslash = CHR 0x5C"

definition dquote :: char where
  "dquote = CHR 0x22"

text \<open>The table \<^verbatim>\<open>htmlSafeSet\<close>: the ASCII bytes the encoder copies unchanged.\<close>

definition htmlSafeSet :: "char \<Rightarrow> bool" where
  "htmlSafeSet b \<longleftrightarrow>
     (0x20::nat) \<le> of_char b \<and> (of_char b :: nat) < 0x80
     \<and> b \<notin> {dquote, CHR ''&'', CHR ''<'', CHR ''>'', backslash}"

definition escapeByte :: "char \<Rightarrow> string" where
  "escapeByte b =
     (if b = backslash \<or> b = dquote then [backslash, b]
      else if b = CHR 0x08 then [backslash, CHR ''b'']
      else if b = CHR 0x0C then [backslash, CHR ''f'']
      else if b = CHR 0x0A then [backslash, CHR ''n'']
      else if b = CHR 0x0D then [backslash, CHR ''r'']
      else if b = CHR 0x09 then [backslash, CHR ''t'']
      else [backslash, CHR ''u'', CHR ''0'', CHR ''0'',
            hex (of_char b div 16), hex (of_char b mod 16)])"

text \<open>
  The loop of \<^verbatim>\<open>appendString\<close> with \<^verbatim>\<open>escapeHTML\<close> set, as \<^verbatim>\<open>Marshal\<close> calls it: one step
  per rune. A decoded rune takes at least one byte, so the step drops \<open>size - 1\<close> bytes
  after the first.
\<close>

fun appendStringLoop :: "string \<Rightarrow> string" where
  "appendStringLoop [] = []"
| "appendStringLoop (b # bs) =
     (if (of_char b :: nat) < 0x80
      then (if htmlSafeSet b then [b] else escapeByte b) @ appendStringLoop bs
      else
        let c = fst (DecodeRuneInString (take 4 (b # bs)));
            size = snd (DecodeRuneInString (take 4 (b # bs)))
        in if c = RuneError \<and> size = 1
             then backslash # ''ufffd'' @ appendStringLoop bs
           else if c = 0x2028 \<or> c = 0x2029
             then backslash # ''u202'' @ [hex (c mod 16)] @ appendStringLoop (drop (size - 1) bs)
           else b # take (size - 1) bs @ appendStringLoop (drop (size - 1) bs))"

definition appendString :: "string \<Rightarrow> string" where
  "appendString src = dquote # appendStringLoop src @ [dquote]"

fun joinComma :: "string list \<Rightarrow> string" where
  "joinComma [] = []"
| "joinComma [p] = p"
| "joinComma (p # q # ps) = p @ '','' @ joinComma (q # ps)"

text \<open>The encoder proper: \<open>Inl\<close> carries the error, \<open>Inr\<close> the bytes.\<close>

fun encode :: "go_value \<Rightarrow> string + string"
  and encodeFields :: "(string \<times> go_value) list \<Rightarrow> string + string list" where
  "encode (GoString s) = Inr (appendString s)"
| "encode (GoUnsupported t) = Inl (''json: unsupported type: '' @ t)"
| "encode (GoStruct fs) =
     (case encodeFields fs of
        Inl e \<Rightarrow> Inl e
      | Inr parts \<Rightarrow> Inr (''{'' @ joinComma parts @ ''}''))"
| "encodeFields [] = Inr []"
| "encodeFields (f # fs) =
     (case encode (snd f) of
        Inl e \<Rightarrow> Inl e
      | Inr v \<Rightarrow>
          (case encodeFields fs of
             Inl e \<Rightarrow> Inl e
           | Inr parts \<Rightarrow> Inr ((appendString (fst f) @ '':'' @ v) # parts)))"

text \<open>
  Go's result pair \<^verbatim>\<open>([]byte, error)\<close>: \<open>None\<close> is \<^verbatim>\<open>nil\<close> in either component.
\<close>

type_synonym bytes_error = "string option \<times> string option"

definition json_Marshal :: "go_value \<Rightarrow> bytes_error" where
  "json_Marshal v = (case encode v of Inl e \<Rightarrow> (None, Some e) | Inr b \<Rightarrow> (Some b, None))"

text \<open>The struct \<^verbatim>\<open>Response\<close> as the encoder sees it, with the names of its field tags.\<close>

definition Response_value :: "Response \<Rightarrow> go_value" where
  "Response_value r = GoStruct
     [(''type'', GoString (Type r)), (''object'', GoString (Object r)),
      (''function'', GoString (Function r)), (''arg1'', GoString (Arg1 r)),
      (''arg2'', GoString (Arg2 r)), (''arg3'', GoString (Arg3 r))]"

section \<open>The JSON decoder of the Go library\<close>

text \<open>
  \<^verbatim>\<open>json.NewDecoder(r.Body).Decode(&rx)\<close> is library code as well. It is modelled after
  \<^verbatim>\<open>encoding/json\<close>: the scanner, a machine that takes one byte at a time, keeps a stack of
  the objects and arrays it is inside, and answers every byte with a code; \<^verbatim>\<open>readValue\<close>,
  which feeds it the body until the first JSON value is complete and never looks at what
  follows; and the decoding of that value into an \<^verbatim>\<open>Rx\<close>. The body is taken as read in
  full. The text of an error is kept short: no handler uses it.
\<close>

datatype scan_step =
    BeginValueOrEmpty | BeginValue | BeginStringOrEmpty | BeginString | EndValue | EndTop
  | InString | InStringEsc | InStringEscU | InStringEscU1 | InStringEscU12 | InStringEscU123
  | Neg | State1 | State0 | Dot | Dot0 | StateE | ESign | E0
  | StateT | StateTr | StateTru | StateF | StateFa | StateFal | StateFals
  | StateN | StateNu | StateNul | StateError

datatype parse_state = parseObjectKey | parseObjectValue | parseArrayValue

datatype scan_op =
    scanContinue | scanBeginLiteral | scanBeginObject | scanObjectKey | scanObjectValue
  | scanEndObject | scanBeginArray | scanArrayValue | scanEndArray | scanSkipSpace
  | scanEnd | scanError

record scanner =
  step :: scan_step
  endTop :: bool
  parseState :: "parse_state list"
  syntax_err :: "string option"

definition reset :: scanner where
  "reset = \<lparr>step = BeginValue, endTop = False, parseState = [], syntax_err = None\<rparr>"

definition maxNestingDepth :: nat where
  "maxNestingDepth = 10000"

definition isSpace :: "char \<Rightarrow> bool" where
  "isSpace c \<longleftrightarrow> c = CHR '' '' \<or> c = CHR 0x09 \<or> c = CHR 0x0D \<or> c = CHR 0x0A"

definition isDigit :: "char \<Rightarrow> bool" where
  "isDigit c \<longleftrightarrow> c \<in> set ''0123456789''"

definition isHex :: "char \<Rightarrow> bool" where
  "isHex c \<longleftrightarrow> c \<in> set ''0123456789abcdefABCDEF''"

definition scan_error :: "scanner \<Rightarrow> string \<Rightarrow> scan_op \<times> scanner" where
  "scan_error s what = (scanError, s\<lparr>step := StateError, syntax_err := Some what\<rparr>)"

definition continue_in :: "scanner \<Rightarrow> scan_step \<Rightarrow> scan_op \<times> scanner" where
  "continue_in s next = (scanContinue, s\<lparr>step := next\<rparr>)"

definition stateEndTop :: "scanner \<Rightarrow> char \<Rightarrow> scan_op \<times> scanner" where
  "stateEndTop s c =
     (if \<not> isSpace c then (scanEnd, snd (scan_error s ''after top-level value''))
      else (scanEnd, s))"

definition popParseState :: "scanner \<Rightarrow> scanner" where
  "popParseState s =
     (if tl (parseState s) = []
      then s\<lparr>parseState := [], step := EndTop, endTop := True\<rparr>
      else s\<lparr>parseState := tl (parseState s), step := EndValue\<rparr>)"

definition pushParseState :: "scanner \<Rightarrow> parse_state \<Rightarrow> scan_op \<Rightarrow> scan_op \<times> scanner" where
  "pushParseState s newParseState successState =
     (if length (newParseState # parseState s) \<le> maxNestingDepth
      then (successState, s\<lparr>parseState := newParseState # parseState s\<rparr>)
      else scan_error (s\<lparr>parseState := newParseState # parseState s\<rparr>) ''exceeded max depth'')"

definition stateEndValue :: "scanner \<Rightarrow> char \<Rightarrow> scan_op \<times> scanner" where
  "stateEndValue s c =
     (case parseState s of
        [] \<Rightarrow> stateEndTop (s\<lparr>step := EndTop, endTop := True\<rparr>) c
      | ps # rest \<Rightarrow>
          if isSpace c then (scanSkipSpace, s\<lparr>step := EndValue\<rparr>)
          else
            (case ps of
               parseObjectKey \<Rightarrow>
                 if c = CHR '':''
                 then (scanObjectKey, s\<lparr>parseState := parseObjectValue # rest, step := BeginValue\<rparr>)
                 else scan_error s ''after object key''
             | parseObjectValue \<Rightarrow>
                 if c = CHR '',''
                 then (scanObjectValue, s\<lparr>parseState := parseObjectKey # rest, step := BeginString\<rparr>)
                 else if c = CHR ''}'' then (scanEndObject, popParseState s)
                 else scan_error s ''after object key:value pair''
             | parseArrayValue \<Rightarrow>
                 if c = CHR '','' then (scanArrayValue, s\<lparr>step := BeginValue\<rparr>)
                 else if c = CHR '']'' then (scanEndArray, popParseState s)
                 else scan_error s ''after array element''))"

definition stateBeginValue :: "scanner \<Rightarrow> char \<Rightarrow> scan_op \<times> scanner" where
  "stateBeginValue s c =
     (if isSpace c then (scanSkipSpace, s)
      else if c = CHR ''{''
        then pushParseState (s\<lparr>step := BeginStringOrEmpty\<rparr>) parseObjectKey scanBeginObject
      else if c = CHR ''[''
        then pushParseState (s\<lparr>step := BeginValueOrEmpty\<rparr>) parseArrayValue scanBeginArray
      else if c = dquote then (scanBeginLiteral, s\<lparr>step := InString\<rparr>)
      else if c = CHR ''-'' then (scanBeginLiteral, s\<lparr>step := Neg\<rparr>)
      else if c = CHR ''0'' then (scanBeginLiteral, s\<lparr>step := State0\<rparr>)
      else if c = CHR ''t'' then (scanBeginLiteral, s\<lparr>step := StateT\<rparr>)
      else if c = CHR ''f'' then (scanBeginLiteral, s\<lparr>step := StateF\<rparr>)
      else if c = CHR ''n'' then (scanBeginLiteral, s\<lparr>step := StateN\<rparr>)
      else if isDigit c then (scanBeginLiteral, s\<lparr>step := State1\<rparr>)
      else scan_error s ''looking for beginning of value'')"

definition stateBeginString :: "scanner \<Rightarrow> char \<Rightarrow> scan_op \<times> scanner" where
  "stateBeginString s c =
     (if isSpace c then (scanSkipSpace, s)
      else if c = dquote then (scanBeginLiteral, s\<lparr>step := InString\<rparr>)
      else scan_error s ''looking for beginning of object key string'')"

definition state0 :: "scanner \<Rightarrow> char \<Rightarrow> scan_op \<times> scanner" where
  "state0 s c =
     (if c = CHR ''.'' then continue_in s Dot
      else if c = CHR ''e'' \<or> c = CHR ''E'' then continue_in s StateE
      else stateEndValue s c)"

definition stateESign :: "scanner \<Rightarrow> char \<Rightarrow> scan_op \<times> scanner" where
  "stateESign s c =
     (if isDigit c then continue_in s E0
      else scan_error s ''in exponent of numeric literal'')"

definition expect ::
  "scanner \<Rightarrow> char \<Rightarrow> char \<Rightarrow> scan_step \<Rightarrow> string \<Rightarrow> scan_op \<times> scanner" where
  "expect s c wanted next what =
     (if c = wanted then continue_in s next else scan_error s what)"

definition scan_step :: "scanner \<Rightarrow> char \<Rightarrow> scan_op \<times> scanner" where
  "scan_step s c =
     (case step s of
        BeginValue \<Rightarrow> stateBeginValue s c
      | BeginValueOrEmpty \<Rightarrow>
          if isSpace c then (scanSkipSpace, s)
          else if c = CHR '']'' then stateEndValue s c
          else stateBeginValue s c
      | BeginStringOrEmpty \<Rightarrow>
          if isSpace c then (scanSkipSpace, s)
          else if c = CHR ''}''
            then stateEndValue (s\<lparr>parseState := parseObjectValue # tl (parseState s)\<rparr>) c
          else stateBeginString s c
      | BeginString \<Rightarrow> stateBeginString s c
      | EndValue \<Rightarrow> stateEndValue s c
      | EndTop \<Rightarrow> stateEndTop s c
      | InString \<Rightarrow>
          if c = dquote then continue_in s EndValue
          else if c = backslash then continue_in s InStringEsc
          else if (of_char c :: nat) < 0x20 then scan_error s ''in string literal''
          else (scanContinue, s)
      | InStringEsc \<Rightarrow>
          if c \<in> set ''bfnrt/'' \<or> c = backslash \<or> c = dquote then continue_in s InString
          else if c = CHR ''u'' then continue_in s InStringEscU
          else scan_error s ''in string escape code''
      | InStringEscU \<Rightarrow>
          if isHex c then continue_in s InStringEscU1
          else scan_error s ''in hexadecimal character escape''
      | InStringEscU1 \<Rightarrow>
          if isHex c then continue_in s InStringEscU12
          else scan_error s ''in hexadecimal character escape''
      | InStringEscU12 \<Rightarrow>
          if isHex c then continue_in s InStringEscU123
          else scan_error s ''in hexadecimal character escape''
      | InStringEscU123 \<Rightarrow>
          if isHex c then continue_in s InString
          else scan_error s ''in hexadecimal character escape''
      | Neg \<Rightarrow>
          if c = CHR ''0'' then continue_in s State0
          else if isDigit c then continue_in s State1
          else scan_error s ''in numeric literal''
      | State1 \<Rightarrow> if isDigit c then continue_in s State1 else state0 s c
      | State0 \<Rightarrow> state0 s c
      | Dot \<Rightarrow>
          if isDigit c then continue_in s Dot0
          else scan_error s ''after decimal point in numeric literal''
      | Dot0 \<Rightarrow>
          if isDigit c then (scanContinue, s)
          else if c = CHR ''e'' \<or> c = CHR ''E'' then continue_in s StateE
          else stateEndValue s c
      | StateE \<Rightarrow>
          if c = CHR ''+'' \<or> c = CHR ''-'' then continue_in s ESign else stateESign s c
      | ESign \<Rightarrow> stateESign s c
      | E0 \<Rightarrow> if isDigit c then (scanContinue, s) else stateEndValue s c
      | StateT \<Rightarrow> expect s c (CHR ''r'') StateTr ''in literal true (expecting r)''
      | StateTr \<Rightarrow> expect s c (CHR ''u'') StateTru ''in literal true (expecting u)''
      | StateTru \<Rightarrow> expect s c (CHR ''e'') EndValue ''in literal true (expecting e)''
      | StateF \<Rightarrow> expect s c (CHR ''a'') StateFa ''in literal false (expecting a)''
      | StateFa \<Rightarrow> expect s c (CHR ''l'') StateFal ''in literal false (expecting l)''
      | StateFal \<Rightarrow> expect s c (CHR ''s'') StateFals ''in literal false (expecting s)''
      | StateFals \<Rightarrow> expect s c (CHR ''e'') EndValue ''in literal false (expecting e)''
      | StateN \<Rightarrow> expect s c (CHR ''u'') StateNu ''in literal null (expecting u)''
      | StateNu \<Rightarrow> expect s c (CHR ''l'') StateNul ''in literal null (expecting l)''
      | StateNul \<Rightarrow> expect s c (CHR ''l'') EndValue ''in literal null (expecting l)''
      | StateError \<Rightarrow> (scanError, s))"







text \<open>
  \<^verbatim>\<open>unquote\<close> turns a string literal into the string it denotes: escapes are resolved, a
  pair of surrogate escapes gives one rune, and what is no valid UTF-8 or no valid rune
  becomes the replacement rune.
\<close>

definition EncodeRune :: "nat \<Rightarrow> string" where
  "EncodeRune r =
     (if r < 0x80 then [char_of r]
      else if r < 0x800 then [char_of (0xC0 + r div 0x40), char_of (0x80 + r mod 0x40)]
      else if r > 0x10FFFF \<or> (0xD800 \<le> r \<and> r < 0xE000) then [CHR 0xEF, CHR 0xBF, CHR 0xBD]
      else if r < 0x10000
        then [char_of (0xE0 + r div 0x1000), char_of (0x80 + r div 0x40 mod 0x40),
              char_of (0x80 + r mod 0x40)]
      else [char_of (0xF0 + r div 0x40000), char_of (0x80 + r div 0x1000 mod 0x40),
            char_of (0x80 + r div 0x40 mod 0x40), char_of (0x80 + r mod 0x40)])"

definition hexval :: "char \<Rightarrow> nat" where
  "hexval c =
     (if isDigit c then of_char c - 48
      else if c \<in> set ''abcdef'' then of_char c - 97 + 10
      else of_char c - 65 + 10)"

definition getu4 :: "string \<Rightarrow> nat option" where
  "getu4 s =
     (case s of
        b # u # h1 # h2 # h3 # h4 # _ \<Rightarrow>
          if b = backslash \<and> u = CHR ''u'' \<and> isHex h1 \<and> isHex h2 \<and> isHex h3 \<and> isHex h4
          then Some (((hexval h1 * 16 + hexval h2) * 16 + hexval h3) * 16 + hexval h4)
          else None
      | _ \<Rightarrow> None)"

definition IsSurrogate :: "nat \<Rightarrow> bool" where
  "IsSurrogate r \<longleftrightarrow> 0xD800 \<le> r \<and> r < 0xE000"

definition utf16_DecodeRune :: "nat \<Rightarrow> nat option \<Rightarrow> nat" where
  "utf16_DecodeRune r1 r2 =
     (case r2 of
        None \<Rightarrow> RuneError
      | Some r \<Rightarrow>
          if 0xD800 \<le> r1 \<and> r1 < 0xDC00 \<and> 0xDC00 \<le> r \<and> r < 0xE000
          then (r1 - 0xD800) * 0x400 + (r - 0xDC00) + 0x10000
          else RuneError)"

fun unquoteLoop :: "string \<Rightarrow> string option" where
  "unquoteLoop [] = Some []"
| "unquoteLoop (c # cs) =
     (if c = backslash then
        (case cs of
           [] \<Rightarrow> None
         | e # rest \<Rightarrow>
             if e = dquote \<or> e = backslash \<or> e = CHR ''/'' \<or> e = CHR 0x27
               then map_option ((#) e) (unquoteLoop rest)
             else if e = CHR ''b'' then map_option ((#) (CHR 0x08)) (unquoteLoop rest)
             else if e = CHR ''f'' then map_option ((#) (CHR 0x0C)) (unquoteLoop rest)
             else if e = CHR ''n'' then map_option ((#) (CHR 0x0A)) (unquoteLoop rest)
             else if e = CHR ''r'' then map_option ((#) (CHR 0x0D)) (unquoteLoop rest)
             else if e = CHR ''t'' then map_option ((#) (CHR 0x09)) (unquoteLoop rest)
             else if e = CHR ''u'' then
               (case getu4 (c # cs) of
                  None \<Rightarrow> None
                | Some rr \<Rightarrow>
                    if IsSurrogate rr
                       \<and> utf16_DecodeRune rr (getu4 (drop 5 cs)) \<noteq> RuneError
                    then map_option ((@) (EncodeRune (utf16_DecodeRune rr (getu4 (drop 5 cs)))))
                           (unquoteLoop (drop 11 cs))
                    else map_option
                           ((@) (EncodeRune (if IsSurrogate rr then RuneError else rr)))
                           (unquoteLoop (drop 5 cs)))
             else None)
      else if c = dquote \<or> (of_char c :: nat) < 0x20 then None
      else if (of_char c :: nat) < 0x80 then map_option ((#) c) (unquoteLoop cs)
      else
        map_option ((@) (EncodeRune (fst (DecodeRuneInString (take 4 (c # cs))))))
          (unquoteLoop (drop (snd (DecodeRuneInString (take 4 (c # cs))) - 1) cs)))"

definition unquote :: "string \<Rightarrow> string option" where
  "unquote s =
     (if length s < 2 \<or> hd s \<noteq> dquote \<or> last s \<noteq> dquote then None
      else unquoteLoop (butlast (tl s)))"

text \<open>
  The members of the object at the top, as the decoder finds them with the codes of the
  scanner: the literal of each key and the text of each value, with the white space
  between the tokens of the object left out.
\<close>

record collector =
  scan :: scanner
  literal :: string
  key :: "string option"
  members :: "(string \<times> string) list"

definition collect :: "collector \<Rightarrow> char \<Rightarrow> collector" where
  "collect k c =
     (let op = fst (scan_step (scan k) c);
          s' = snd (scan_step (scan k) c);
          depth = length (parseState (scan k));
          depth' = length (parseState s')
      in if op = scanBeginObject \<and> depth = 0 then k\<lparr>scan := s'\<rparr>
         else if op = scanObjectKey \<and> depth' = 1
           then k\<lparr>scan := s', literal := [], key := Some (literal k)\<rparr>
         else if (op = scanObjectValue \<and> depth' = 1) \<or> (op = scanEndObject \<and> depth' = 0)
           then (case key k of
                   None \<Rightarrow> k\<lparr>scan := s'\<rparr>
                 | Some name \<Rightarrow>
                     k\<lparr>scan := s', literal := [], key := None,
                       members := members k @ [(name, literal k)]\<rparr>)
         else if op = scanSkipSpace \<and> depth \<le> 1 then k\<lparr>scan := s'\<rparr>
         else k\<lparr>scan := s', literal := literal k @ [c]\<rparr>)"

definition object_members :: "string \<Rightarrow> (string \<times> string) list" where
  "object_members item =
     members (foldl collect \<lparr>scan = reset, literal = [], key = None, members = []\<rparr> item)"

text \<open>
  A key names a field when it equals the field's tag with the case of the letters
  ignored. A string is stored in the field, \<^verbatim>\<open>null\<close> leaves it as it is, any other value
  is an error of type, kept until the object is read to its end. The later of two
  members with the same key wins.
\<close>

definition foldName :: "string \<Rightarrow> string" where
  "foldName s =
     map (\<lambda>c. if c \<in> set ''abcdefghijklmnopqrstuvwxyz''
              then char_of (of_char c - (32::nat)) else c) s"

datatype field = FieldName | FieldAction | FieldValue

definition find_field :: "string \<Rightarrow> field option" where
  "find_field name =
     (if foldName name = ''NAME'' then Some FieldName
      else if foldName name = ''ACTION'' then Some FieldAction
      else if foldName name = ''VALUE'' then Some FieldValue
      else None)"

definition set_field :: "field \<Rightarrow> string \<Rightarrow> Rx \<Rightarrow> Rx" where
  "set_field f v rx =
     (case f of
        FieldName \<Rightarrow> rx\<lparr>Name := v\<rparr>
      | FieldAction \<Rightarrow> rx\<lparr>Action := v\<rparr>
      | FieldValue \<Rightarrow> rx\<lparr>Value := v\<rparr>)"

fun store :: "(string \<times> string) list \<Rightarrow> Rx \<Rightarrow> string option \<Rightarrow> string + Rx" where
  "store [] rx savedError = (case savedError of None \<Rightarrow> Inr rx | Some e \<Rightarrow> Inl e)"
| "store ((k, v) # ms) rx savedError =
     (case unquote k of
        None \<Rightarrow> Inl ''JSON decoder out of sync''
      | Some name \<Rightarrow>
          (case find_field name of
             None \<Rightarrow> store ms rx savedError
           | Some f \<Rightarrow>
               (case v of
                  [] \<Rightarrow> Inl ''JSON decoder out of sync''
                | c # _ \<Rightarrow>
                    if c = dquote then
                      (case unquote v of
                         None \<Rightarrow> Inl ''JSON decoder out of sync''
                       | Some str \<Rightarrow> store ms (set_field f str rx) savedError)
                    else if c = CHR ''n'' then store ms rx savedError
                    else store ms rx
                           (case savedError of
                              None \<Rightarrow> Some ''json: cannot unmarshal into Go struct field''
                            | Some e \<Rightarrow> Some e))))"

text \<open>
  A value that is no object cannot be stored in the struct, but for \<^verbatim>\<open>null\<close>, which
  leaves it at its zero value.
\<close>

definition unmarshal :: "string \<Rightarrow> string + Rx" where
  "unmarshal item =
     (case dropWhile isSpace item of
        [] \<Rightarrow> Inl ''unexpected end of JSON input''
      | c # _ \<Rightarrow>
          if c = CHR ''{''
            then store (object_members item) \<lparr>Name = [], Action = [], Value = []\<rparr> None
          else if c = CHR ''n'' then Inr \<lparr>Name = [], Action = [], Value = []\<rparr>
          else Inl ''json: cannot unmarshal into Go value of type main.Rx'')"


section \<open>The state of the process and its surroundings\<close>

text \<open>
  A connection returned by \<^verbatim>\<open>net.Dial\<close> is a handle with the local address the system
  gave it. An HTTP request is kept as a structure: its method, path, header and body.
\<close>

datatype net_Conn = Conn (fd: nat) (LocalAddr: string)

record http_Request =
  Method :: string
  URL :: string
  Header :: "(string \<times> string) list"
  Body :: string

text \<open>
  The state threaded through the code. \<open>conn\<close> and \<open>connErr\<close> are the package variables
  of \<^verbatim>\<open>part_000\<close> (\<open>None\<close> is \<^verbatim>\<open>nil\<close>); in the model of \<^verbatim>\<open>server.go\<close>, which has no such
  variables, they stay untouched. The other fields are the surroundings: the connections
  dialed and not yet closed, the next fresh handle, the number of calls of \<^verbatim>\<open>net.Dial\<close>,
  the requests written to each connection in order, the standard output, and the
  message of a run-time panic once one has happened.
\<close>

record world =
  conn :: "net_Conn option"
  connErr :: "string option"
  open_conns :: "net_Conn set"
  next_fd :: nat
  dials :: nat
  wire :: "(net_Conn \<times> http_Request) list"
  stdout :: string
  panic :: "string option"

definition initial :: world where
  "initial = \<lparr>conn = None, connErr = None, open_conns = {}, next_fd = 0, dials = 0,
     wire = [], stdout = [], panic = None\<rparr>"

subsection \<open>Printing\<close>

fun joinSpace :: "string list \<Rightarrow> string" where
  "joinSpace [] = []"
| "joinSpace [p] = p"
| "joinSpace (p # q # ps) = p @ '' '' @ joinSpace (q # ps)"

definition Print :: "string \<Rightarrow> world \<Rightarrow> world" where
  "Print s w = w\<lparr>stdout := stdout w @ s\<rparr>"

definition Println :: "string list \<Rightarrow> world \<Rightarrow> world" where
  "Println operands w = w\<lparr>stdout := stdout w @ joinSpace operands @ [CHR 0x0A]\<rparr>"

text \<open>The default format of a struct: its fields between braces, separated by spaces.\<close>

definition format_Rx :: "Rx \<Rightarrow> string" where
  "format_Rx rx = ''{'' @ joinSpace [Name rx, Action rx, Value rx] @ ''}''"

definition format_Response :: "Response \<Rightarrow> string" where
  "format_Response r =
     ''{'' @ joinSpace [Type r, Object r, Function r, Arg1 r, Arg2 r, Arg3 r] @ ''}''"

subsection \<open>HTTP responses\<close>

record http_Response =
  status :: nat
  header :: "(string \<times> string) list"
  body :: string

definition StatusOK :: nat where
  "StatusOK = 200"

definition StatusBadRequest :: nat where
  "StatusBadRequest = 400"

definition StatusInternalServerError :: nat where
  "StatusInternalServerError = 500"

text \<open>\<^verbatim>\<open>http.Error\<close>: a plain-text reply with the given code, the message and a newline.\<close>

definition http_Error :: "string \<Rightarrow> nat \<Rightarrow> http_Response" where
  "http_Error msg code =
     \<lparr>status = code,
      header = [(''Content-Type'', ''text/plain; charset=utf-8''),
                (''X-Content-Type-Options'', ''nosniff'')],
      body = msg @ [CHR 0x0A]\<rparr>"

text \<open>
  Setting the content type and writing the reply without an explicit status: status 200;
  a \<^verbatim>\<open>nil\<close> reply writes no byte.
\<close>

definition writeReply :: "string option \<Rightarrow> http_Response" where
  "writeReply reply =
     \<lparr>status = StatusOK, header = [(''Content-Type'', contentType)],
      body = (case reply of None \<Rightarrow> [] | Some b \<Rightarrow> b)\<rparr>"

section \<open>The codec and the handlers of part\_000\<close>

definition btnVisStateToggle :: "Rx \<Rightarrow> world \<Rightarrow> bytes_error \<times> world" where
  "btnVisStateToggle rx w =
     (if Name rx \<in> set dontToggleButtons then ((None, None), w)
      else
        let state = (if Value rx = ''0'' then ''1'' else ''0'');
            response = \<lparr>Type = ''Button'', Object = Name rx, Function = ''SetState'',
                        Arg1 = state, Arg2 = [], Arg3 = []\<rparr>
        in (json_Marshal (Response_value response), Print (format_Response response) w))"

text \<open>
  The handlers take the outcome of \<^verbatim>\<open>json.NewDecoder(r.Body).Decode(&rx)\<close> as their
  input: \<open>Inl\<close> the decoder's error, \<open>Inr\<close> the decoded event (a field absent from the
  body is the empty string). The handler on a request with the body \<open>b\<close> is the
  function applied to \<open>Decode b\<close>. They return the HTTP response and the state.
\<close>

text \<open>
  The test handler sets no header: the first \<^verbatim>\<open>Write\<close> adds the content type it detects
  from the body.
\<close>

definition replyTestHandler :: "world \<Rightarrow> http_Response \<times> world" where
  "replyTestHandler w =
     (\<lparr>status = StatusOK, header = [(''Content-Type'', ''text/plain; charset=utf-8'')],
       body = ''OK''\<rparr>, w)"

definition replyButtonHandler :: "string + Rx \<Rightarrow> world \<Rightarrow> http_Response \<times> world" where
  "replyButtonHandler decoded w =
     (case decoded of
        Inl err \<Rightarrow> (http_Error ''Invalid JSON data'' StatusBadRequest, w)
      | Inr rx \<Rightarrow>
          let w1 = Print (format_Rx rx) w;
              reply = fst (fst (btnVisStateToggle rx w1));
              err = snd (fst (btnVisStateToggle rx w1));
              w2 = snd (btnVisStateToggle rx w1)
          in (case err of
                Some e \<Rightarrow> (http_Error e StatusInternalServerError, w2)
              | None \<Rightarrow> (writeReply reply, w2)))"

definition replySliderHandler :: "string + Rx \<Rightarrow> world \<Rightarrow> http_Response \<times> world" where
  "replySliderHandler decoded w =
     (case decoded of
        Inl err \<Rightarrow> (http_Error ''Invalid JSON data'' StatusBadRequest, w)
      | Inr rx \<Rightarrow>
          let w1 = Print (format_Rx rx) w;
              name = Name rx;
              value = Value rx;
              response = \<lparr>Type = ''Slider'', Object = name, Function = ''SetFill'',
                          Arg1 = value, Arg2 = [], Arg3 = []\<rparr>;
              w2 = Print (format_Response response) w1;
              reply = fst (json_Marshal (Response_value response));
              err = snd (json_Marshal (Response_value response))
          in (case err of
                Some e \<Rightarrow> (http_Error e StatusInternalServerError, w2)
              | None \<Rightarrow> (writeReply reply, w2)))"

section \<open>The codec and the handlers of server.go\<close>

definition btnVisStateToggle_server :: "Rx \<Rightarrow> world \<Rightarrow> bytes_error \<times> world" where
  "btnVisStateToggle_server rx w =
     (if Name rx \<in> set dontToggleButtons_server then ((None, None), w)
      else
        let state = (if Value rx = ''0'' then ''1'' else ''0'');
            response = \<lparr>Type = ''Button'', Object = Name rx, Function = ''SetState'',
                        Arg1 = state, Arg2 = [], Arg3 = []\<rparr>
        in (json_Marshal (Response_value response), Print (format_Response response) w))"

definition replyTestHandler_server :: "world \<Rightarrow> http_Response \<times> world" where
  "replyTestHandler_server w =
     (\<lparr>status = StatusOK, header = [(''Content-Type'', ''text/plain; charset=utf-8'')],
       body = ''OK''\<rparr>, w)"

definition replyButtonHandler_server :: "string + Rx \<Rightarrow> world \<Rightarrow> http_Response \<times> world" where
  "replyButtonHandler_server decoded w =
     (case decoded of
        Inl err \<Rightarrow> (http_Error ''Invalid JSON data'' StatusBadRequest, w)
      | Inr rx \<Rightarrow>
          let w1 = Print (format_Rx rx) w;
              reply = fst (fst (btnVisStateToggle_server rx w1));
              err = snd (fst (btnVisStateToggle_server rx w1));
              w2 = snd (btnVisStateToggle_server rx w1)
          in (case err of
                Some e \<Rightarrow> (http_Error e StatusInternalServerError, w2)
              | None \<Rightarrow> (writeReply reply, w2)))"

definition replySliderHandler_server :: "string + Rx \<Rightarrow> world \<Rightarrow> http_Response \<times> world" where
  "replySliderHandler_server decoded w =
     (case decoded of
        Inl err \<Rightarrow> (http_Error ''Invalid JSON data'' StatusBadRequest, w)
      | Inr rx \<Rightarrow>
          let w1 = Print (format_Rx rx) w;
              name = Name rx;
              value = Value rx;
              response = \<lparr>Type = ''Slider'', Object = name, Function = ''SetFill'',
                          Arg1 = value, Arg2 = [], Arg3 = []\<rparr>;
              w2 = Print (format_Response response) w1;
              reply = fst (json_Marshal (Response_value response));
              err = snd (json_Marshal (Response_value response))
          in (case err of
                Some e \<Rightarrow> (http_Error e StatusInternalServerError, w2)
              | None \<Rightarrow> (writeReply reply, w2)))"

section \<open>The connection manager of part\_000\<close>

text \<open>
  What the network does is an input of the model: the outcome of a call of \<^verbatim>\<open>net.Dial\<close>
  (an error, or a connection with its local address), of \<^verbatim>\<open>http.NewRequest\<close> and of
  \<^verbatim>\<open>req.Write\<close> (\<open>None\<close> is a \<^verbatim>\<open>nil\<close> error).
\<close>

datatype dial_outcome = DialError string | DialOK string

record net_env =
  on_Dial :: dial_outcome
  on_NewRequest :: "string option"
  on_Write :: "string option"

definition net_Dial :: "dial_outcome \<Rightarrow> world \<Rightarrow> (string + net_Conn) \<times> world" where
  "net_Dial d w =
     (case d of
        DialError e \<Rightarrow> (Inl e, w\<lparr>dials := dials w + 1\<rparr>)
      | DialOK local \<Rightarrow>
          (Inr (Conn (next_fd w) local),
           w\<lparr>open_conns := insert (Conn (next_fd w) local) (open_conns w),
             next_fd := next_fd w + 1, dials := dials w + 1\<rparr>))"

definition Close :: "net_Conn \<Rightarrow> world \<Rightarrow> world" where
  "Close c w = w\<lparr>open_conns := open_conns w - {c}\<rparr>"

text \<open>
  Each of \<^verbatim>\<open>getConn\<close> and \<^verbatim>\<open>closeConn\<close> runs under the mutex \<^verbatim>\<open>connMu\<close> from its first
  statement to its return, so each is one step on the state.
\<close>

definition getConn :: "dial_outcome \<Rightarrow> world \<Rightarrow> (net_Conn option \<times> string option) \<times> world" where
  "getConn d w =
     (if conn w = None then
        let w1 = Println [''No existing connection.  Attempting to establish.''] w
        in (case fst (net_Dial d w1) of
              Inl e \<Rightarrow>
                ((None, Some e), (snd (net_Dial d w1))\<lparr>conn := None, connErr := Some e\<rparr>)
            | Inr c \<Rightarrow>
                ((Some c, None),
                 Println [''Connected'', LocalAddr c, ''>'', ProcessorAddr]
                   ((snd (net_Dial d w1))\<lparr>conn := Some c, connErr := None\<rparr>)))
      else ((conn w, None), w))"

definition closeConn :: "world \<Rightarrow> world" where
  "closeConn w =
     (case conn w of
        Some c \<Rightarrow> (Close c w)\<lparr>conn := None\<rparr>
      | None \<Rightarrow> w)"

text \<open>
  \<^verbatim>\<open>sendToProcessor\<close>. Writing through a \<^verbatim>\<open>nil\<close> connection would be a nil dereference,
  which ends a Go process; the branch is in the model.
\<close>

definition sendToProcessor :: "net_env \<Rightarrow> string \<Rightarrow> world \<Rightarrow> world" where
  "sendToProcessor ev data_to_send w =
     (let c = fst (fst (getConn (on_Dial ev) w));
          err = snd (fst (getConn (on_Dial ev) w));
          w1 = snd (getConn (on_Dial ev) w)
      in case err of
           Some e \<Rightarrow> Println [''Error connecting to client:'', e] w1
         | None \<Rightarrow>
             (case on_NewRequest ev of
                Some e \<Rightarrow> Println [''Error creating HTTP request:'', e] w1
              | None \<Rightarrow>
                  let req = \<lparr>Method = ''POST'', URL = ''/'',
                             Header = [(''Content-Type'', contentType)],
                             Body = data_to_send\<rparr>
                  in (case c of
                        None \<Rightarrow>
                          w1\<lparr>panic := Some ''invalid memory address or nil pointer dereference''\<rparr>
                      | Some k \<Rightarrow>
                          (case on_Write ev of
                             Some e \<Rightarrow> closeConn (Println [''Error sending HTTP request:'', e] w1)
                           | None \<Rightarrow> w1\<lparr>wire := wire w1 @ [(k, req)]\<rparr>))))"

section \<open>The time label\<close>

text \<open>
  \<^verbatim>\<open>time.Now()\<close> returns an instant together with the location \<^verbatim>\<open>time.Local\<close>. A value of
  \<^verbatim>\<open>Time\<close> is modelled by the instant, in nanoseconds since the epoch from which the
  library counts days, and the offset east of UTC, in seconds, that the local zone has at
  that instant: the offset changes when the wall clock of the zone is set forward or back.
  The library formats the reading of the wall clock, the instant shifted by the offset;
  the epoch lies far enough in the past for the sum to be positive at every offset.
  \<^verbatim>\<open>time.Format\<close> is modelled at the two layouts the sources use: \<^verbatim>\<open>"15:04:05"\<close> and
  \<^verbatim>\<open>"15:04:05.00"\<close>.
\<close>

record Time =
  instant :: nat
  offset :: int

definition wall_clock :: "Time \<Rightarrow> nat" where
  "wall_clock t = nat (int (instant t) + offset t * 1000000000)"

definition Hour :: "Time \<Rightarrow> nat" where
  "Hour t = wall_clock t div 1000000000 mod 86400 div 3600"

definition Minute :: "Time \<Rightarrow> nat" where
  "Minute t = wall_clock t div 1000000000 mod 3600 div 60"

definition Second :: "Time \<Rightarrow> nat" where
  "Second t = wall_clock t div 1000000000 mod 60"

definition Nanosecond :: "Time \<Rightarrow> nat" where
  "Nanosecond t = wall_clock t mod 1000000000"

definition digit :: "nat \<Rightarrow> char" where
  "digit d = char_of (48 + d)"

fun digits :: "nat \<Rightarrow> string" where
  "digits x = (if x < 10 then [digit x] else digits (x div 10) @ [digit (x mod 10)])"

declare digits.simps [simp del]

text \<open>\<^verbatim>\<open>appendInt\<close>: the decimal digits of \<open>x\<close>, padded with zeros to the width.\<close>

definition appendInt :: "nat \<Rightarrow> nat \<Rightarrow> string" where
  "appendInt x width = replicate (width - length (digits x)) (CHR ''0'') @ digits x"

definition Format_150405 :: "Time \<Rightarrow> string" where
  "Format_150405 t =
     appendInt (Hour t) 2 @ '':'' @ appendInt (Minute t) 2 @ '':'' @ appendInt (Second t) 2"

text \<open>
  The fraction \<^verbatim>\<open>.00\<close>: a dot and the first two of the nine digits of the nanoseconds.
\<close>

definition Format_150405_00 :: "Time \<Rightarrow> string" where
  "Format_150405_00 t = Format_150405 t @ ''.'' @ take 2 (appendInt (Nanosecond t) 9)"

definition bytes :: "string option \<Rightarrow> string" where
  "bytes b = (case b of None \<Rightarrow> [] | Some s \<Rightarrow> s)"

definition timeLabel :: "Time \<Rightarrow> Response" where
  "timeLabel now = \<lparr>Type = ''Label'', Object = testLabel, Function = ''SetText'',
     Arg1 = Format_150405_00 now, Arg2 = [], Arg3 = []\<rparr>"

definition sendTestSetLabel :: "Time \<Rightarrow> net_env \<Rightarrow> world \<Rightarrow> world" where
  "sendTestSetLabel now ev w =
     (let response = timeLabel now;
          data_to_send = fst (json_Marshal (Response_value response));
          err = snd (json_Marshal (Response_value response))
      in case err of
           Some e \<Rightarrow> Println [''Error creating response:'', e] w
         | None \<Rightarrow> sendToProcessor ev (bytes data_to_send) w)"

definition timeLabel_server :: "Time \<Rightarrow> Response" where
  "timeLabel_server now = \<lparr>Type = ''Label'', Object = testLabel, Function = ''SetText'',
     Arg1 = Format_150405 now, Arg2 = [], Arg3 = []\<rparr>"

text \<open>
  In \<^verbatim>\<open>server.go\<close> the connection is an argument: \<^verbatim>\<open>main\<close> dialed it once.
\<close>

definition sendTestSetLabel_server :: "net_Conn \<Rightarrow> Time \<Rightarrow> net_env \<Rightarrow> world \<Rightarrow> world" where
  "sendTestSetLabel_server c now ev w =
     (let response = timeLabel_server now;
          reply = fst (json_Marshal (Response_value response));
          err = snd (json_Marshal (Response_value response))
      in case err of
           Some e \<Rightarrow> Println [''Error creating response:'', e] w
         | None \<Rightarrow>
             (case on_NewRequest ev of
                Some e \<Rightarrow> Println [''Error creating HTTP request:'', e] w
              | None \<Rightarrow>
                  let req = \<lparr>Method = ''POST'', URL = ''/'',
                             Header = [(''Content-Type'', contentType)],
                             Body = bytes reply\<rparr>
                  in (case on_Write ev of
                        Some e \<Rightarrow> Println [''Error sending HTTP request:'', e] w
                      | None \<Rightarrow> w\<lparr>wire := wire w @ [(c, req)]\<rparr>)))"

section \<open>The process\<close>

text \<open>
  What happens to the running process: a tick of the ticker (with the clock's reading and
  what the network does during it) or a request to one of the three routes. The model
  takes them one at a time. The handlers touch none of the connection's state, so the
  order among concurrent requests shows in the standard output only.
\<close>

datatype event =
    Tick Time net_env
  | ButtonRequest "string + Rx"
  | SliderRequest "string + Rx"
  | TestRequest

datatype process =
    Exited (world_of: world)
  | Crashed (world_of: world)
  | Running (responses: "http_Response list") (world_of: world)

fun serve :: "event \<Rightarrow> http_Response list \<times> world \<Rightarrow> http_Response list \<times> world" where
  "serve (Tick now ev) (rs, w) = (rs, sendTestSetLabel now ev w)"
| "serve (ButtonRequest d) (rs, w) =
     (rs @ [fst (replyButtonHandler d w)], snd (replyButtonHandler d w))"
| "serve (SliderRequest d) (rs, w) =
     (rs @ [fst (replySliderHandler d w)], snd (replySliderHandler d w))"
| "serve TestRequest (rs, w) = (rs @ [fst (replyTestHandler w)], snd (replyTestHandler w))"

text \<open>A panic ends the process: nothing after it is served.\<close>

fun run :: "event list \<Rightarrow> http_Response list \<times> world \<Rightarrow> http_Response list \<times> world" where
  "run [] st = st"
| "run (e # es) st = (if panic (snd st) \<noteq> None then st else run es (serve e st))"

definition outcome :: "http_Response list \<times> world \<Rightarrow> process" where
  "outcome st = (if panic (snd st) \<noteq> None then Crashed (snd st) else Running (fst st) (snd st))"

text \<open>
  \<^verbatim>\<open>main\<close> of \<^verbatim>\<open>part_000\<close>: \<open>listen\<close> is the error \<^verbatim>\<open>http.ListenAndServe\<close> returns at once
  (\<open>None\<close>: it serves), \<open>evs\<close> what happens while it serves. The process ends when
  \<^verbatim>\<open>main\<close> returns.
\<close>

definition main :: "string option \<Rightarrow> event list \<Rightarrow> process" where
  "main listen evs =
     (let w0 = Println [''Starting server at'', ServerAddr] initial
      in case listen of
           Some err \<Rightarrow> Exited (Println [''Error starting server:'', err] w0)
         | None \<Rightarrow> outcome (run evs ([], w0)))"

fun serve_server ::
  "net_Conn \<Rightarrow> event \<Rightarrow> http_Response list \<times> world \<Rightarrow> http_Response list \<times> world" where
  "serve_server c (Tick now ev) (rs, w) = (rs, sendTestSetLabel_server c now ev w)"
| "serve_server c (ButtonRequest d) (rs, w) =
     (rs @ [fst (replyButtonHandler_server d w)], snd (replyButtonHandler_server d w))"
| "serve_server c (SliderRequest d) (rs, w) =
     (rs @ [fst (replySliderHandler_server d w)], snd (replySliderHandler_server d w))"
| "serve_server c TestRequest (rs, w) =
     (rs @ [fst (replyTestHandler_server w)], snd (replyTestHandler_server w))"

fun run_server ::
  "net_Conn \<Rightarrow> event list \<Rightarrow> http_Response list \<times> world \<Rightarrow> http_Response list \<times> world" where
  "run_server c [] st = st"
| "run_server c (e # es) st =
     (if panic (snd st) \<noteq> None then st else run_server c es (serve_server c e st))"

text \<open>
  \<^verbatim>\<open>main\<close> of \<^verbatim>\<open>server.go\<close> dials first and returns when the dial fails; the deferred
  \<^verbatim>\<open>conn.Close()\<close> runs when it returns after a successful dial.
\<close>

definition main_server :: "dial_outcome \<Rightarrow> string option \<Rightarrow> event list \<Rightarrow> process" where
  "main_server d listen evs =
     (case fst (net_Dial d initial) of
        Inl err \<Rightarrow> Exited (Println [''Error connecting to client:'', err] (snd (net_Dial d initial)))
      | Inr c \<Rightarrow>
          let w0 = Println [''Starting server at'', ServerAddr] (snd (net_Dial d initial))
          in (case listen of
                Some err \<Rightarrow> Exited (Close c (Println [''Error starting server:'', err] w0))
              | None \<Rightarrow> outcome (run_server c evs ([], w0))))"

section \<open>Notions used to state the properties\<close>

text \<open>
  A connection is live when it has been dialed and not closed. The invariant of the
  connection manager: the live connections are exactly the one the variable \<open>conn\<close>
  holds, none when it is \<^verbatim>\<open>nil\<close>.
\<close>

definition live_invariant :: "world \<Rightarrow> bool" where
  "live_invariant w \<longleftrightarrow> open_conns w = set_option (conn w)"

text \<open>The states the connection manager reaches from the start by its three operations.\<close>

inductive reachable :: "world \<Rightarrow> bool" where
  start: "reachable initial"
| acquire: "reachable w \<Longrightarrow> reachable (snd (getConn d w))"
| invalidate: "reachable w \<Longrightarrow> reachable (closeConn w)"
| send: "reachable w \<Longrightarrow> reachable (sendToProcessor ev data_to_send w)"

text \<open>Every live connection has a handle below the next fresh one.\<close>

definition fresh_invariant :: "world \<Rightarrow> bool" where
  "fresh_invariant w \<longleftrightarrow> (\<forall>c\<in>open_conns w. fd c < next_fd w)"

text \<open>
  A send fails at its write when the request was built and \<^verbatim>\<open>req.Write\<close> returns an
  error.
\<close>

definition write_fails :: "net_env \<Rightarrow> bool" where
  "write_fails ev \<longleftrightarrow> on_NewRequest ev = None \<and> on_Write ev \<noteq> None"

text \<open>Three behaviours of the network, for concrete runs.\<close>

definition healthy :: net_env where
  "healthy = \<lparr>on_Dial = DialOK ''192.168.253.8:50000'', on_NewRequest = None,
     on_Write = None\<rparr>"

definition broken_pipe :: net_env where
  "broken_pipe = \<lparr>on_Dial = DialOK ''192.168.253.8:50000'', on_NewRequest = None,
     on_Write = Some ''write: broken pipe''\<rparr>"

definition refused :: net_env where
  "refused = \<lparr>on_Dial = DialError ''connect: connection refused'', on_NewRequest = None,
     on_Write = None\<rparr>"

text \<open>
  Auxiliary notions for the clock: the digits of a number at a fixed width, the
  hundredths of the current second, and the seconds and hundredths since midnight.
\<close>

fun fixedWidth :: "nat \<Rightarrow> nat \<Rightarrow> string" where
  "fixedWidth 0 x = []"
| "fixedWidth (Suc k) x = fixedWidth k (x div 10) @ [digit (x mod 10)]"

definition Centisecond :: "Time \<Rightarrow> nat" where
  "Centisecond t = Nanosecond t div 10000000"

definition day_seconds :: "Time \<Rightarrow> nat" where
  "day_seconds t = (Hour t * 60 + Minute t) * 60 + Second t"

definition day_centis :: "Time \<Rightarrow> nat" where
  "day_centis t = ((Hour t * 60 + Minute t) * 60 + Second t) * 100 + Centisecond t"

text \<open>Two instants whose wall-clock readings lie in the same day.\<close>

definition same_day :: "Time \<Rightarrow> Time \<Rightarrow> bool" where
  "same_day t1 t2 \<longleftrightarrow>
     wall_clock t1 div 86400000000000 = wall_clock t2 div 86400000000000"




text \<open>An instant in a zone whose offset is zero, for concrete runs.\<close>

definition utc :: "nat \<Rightarrow> Time" where
  "utc n = \<lparr>instant = n, offset = 0\<rparr>"

text \<open>
  The bytes of a command on the wire, following the outbound schema of the specification:
  the six members in the order of the struct, every value a JSON string.
\<close>

definition Response_json :: "Response \<Rightarrow> string" where
  "Response_json r = ''{'' @ joinComma
     [appendString ''type'' @ '':'' @ appendString (Type r),
      appendString ''object'' @ '':'' @ appendString (Object r),
      appendString ''function'' @ '':'' @ appendString (Function r),
      appendString ''arg1'' @ '':'' @ appendString (Arg1 r),
      appendString ''arg2'' @ '':'' @ appendString (Arg2 r),
      appendString ''arg3'' @ '':'' @ appendString (Arg3 r)] @ ''}''"

definition is_request :: "event \<Rightarrow> bool" where
  "is_request e = (case e of Tick _ _ \<Rightarrow> False | _ \<Rightarrow> True)"

section \<open>Properties of the codec and the handlers\<close>

lemma encode_Response: "encode (Response_value r) = Inr (Response_json r)"
  by (simp add: Response_value_def Response_json_def)

lemma json_Marshal_Response: "json_Marshal (Response_value r) = (Some (Response_json r), None)"
  by (simp add: json_Marshal_def encode_Response)

text \<open>
  The two end-to-end examples of the specification's list of testable properties, and
  the excluded button.
\<close>

lemma button_example:
  "fst (replyButtonHandler (Inr \<lparr>Name = ''Btn_1'', Action = ''press'', Value = ''0''\<rparr>) initial) =
     \<lparr>status = 200, header = [(''Content-Type'', ''application/json'')],
      body = ''{'' @ [dquote] @ ''type'' @ [dquote] @ '':'' @ [dquote] @ ''Button'' @ [dquote]
        @ '','' @ [dquote] @ ''object'' @ [dquote] @ '':'' @ [dquote] @ ''Btn_1'' @ [dquote]
        @ '','' @ [dquote] @ ''function'' @ [dquote] @ '':'' @ [dquote] @ ''SetState'' @ [dquote]
        @ '','' @ [dquote] @ ''arg1'' @ [dquote] @ '':'' @ [dquote] @ ''1'' @ [dquote]
        @ '','' @ [dquote] @ ''arg2'' @ [dquote] @ '':'' @ [dquote] @ [dquote]
        @ '','' @ [dquote] @ ''arg3'' @ [dquote] @ '':'' @ [dquote] @ [dquote] @ ''}''\<rparr>"
  by (simp add: replyButtonHandler_def btnVisStateToggle_def Let_def dontToggleButtons_def
      json_Marshal_Response Response_json_def writeReply_def appendString_def htmlSafeSet_def
      dquote_def backslash_def StatusOK_def contentType_def)

lemma slider_example:
  "fst (replySliderHandler (Inr \<lparr>Name = ''Sld_1'', Action = ''change'', Value = ''42''\<rparr>) initial) =
     \<lparr>status = 200, header = [(''Content-Type'', ''application/json'')],
      body = ''{'' @ [dquote] @ ''type'' @ [dquote] @ '':'' @ [dquote] @ ''Slider'' @ [dquote]
        @ '','' @ [dquote] @ ''object'' @ [dquote] @ '':'' @ [dquote] @ ''Sld_1'' @ [dquote]
        @ '','' @ [dquote] @ ''function'' @ [dquote] @ '':'' @ [dquote] @ ''SetFill'' @ [dquote]
        @ '','' @ [dquote] @ ''arg1'' @ [dquote] @ '':'' @ [dquote] @ ''42'' @ [dquote]
        @ '','' @ [dquote] @ ''arg2'' @ [dquote] @ '':'' @ [dquote] @ [dquote]
        @ '','' @ [dquote] @ ''arg3'' @ [dquote] @ '':'' @ [dquote] @ [dquote] @ ''}''\<rparr>"
  by (simp add: replySliderHandler_def Let_def json_Marshal_Response Response_json_def
      writeReply_def appendString_def htmlSafeSet_def dquote_def backslash_def StatusOK_def
      contentType_def)

lemma excluded_button_example:
  "fst (replyButtonHandler (Inr \<lparr>Name = ''Btn_NoTog'', Action = ''press'', Value = ''0''\<rparr>) initial) =
     \<lparr>status = 200, header = [(''Content-Type'', ''application/json'')], body = []\<rparr>"
  by (simp add: replyButtonHandler_def btnVisStateToggle_def Let_def dontToggleButtons_def
      writeReply_def StatusOK_def contentType_def)

text \<open>
  Claim C3. For every button event: when its name is in the exclusion list,
  \<^verbatim>\<open>btnVisStateToggle\<close> returns \<^verbatim>\<open>nil, nil\<close> (no command, no error) and prints nothing;
  otherwise it returns, with a \<^verbatim>\<open>nil\<close> error, the encoding of the Button/SetState
  command whose object is the event's name and whose first argument is \<^verbatim>\<open>"1"\<close> when the
  event's value is \<^verbatim>\<open>"0"\<close> and \<^verbatim>\<open>"0"\<close> for any other value, the empty one of a missing
  field included. Both variants.
\<close>

theorem toggle_response:
  "btnVisStateToggle rx w =
     (if Name rx \<in> set dontToggleButtons then ((None, None), w)
      else
        ((Some (Response_json \<lparr>Type = ''Button'', Object = Name rx, Function = ''SetState'',
              Arg1 = (if Value rx = ''0'' then ''1'' else ''0''), Arg2 = [], Arg3 = []\<rparr>),
          None),
         Print (format_Response
             \<lparr>Type = ''Button'', Object = Name rx, Function = ''SetState'',
              Arg1 = (if Value rx = ''0'' then ''1'' else ''0''), Arg2 = [], Arg3 = []\<rparr>) w))
   \<and> btnVisStateToggle_server rx w =
     (if Name rx \<in> set dontToggleButtons_server then ((None, None), w)
      else
        ((Some (Response_json \<lparr>Type = ''Button'', Object = Name rx, Function = ''SetState'',
              Arg1 = (if Value rx = ''0'' then ''1'' else ''0''), Arg2 = [], Arg3 = []\<rparr>),
          None),
         Print (format_Response
             \<lparr>Type = ''Button'', Object = Name rx, Function = ''SetState'',
              Arg1 = (if Value rx = ''0'' then ''1'' else ''0''), Arg2 = [], Arg3 = []\<rparr>) w))"
  by (simp add: btnVisStateToggle_def btnVisStateToggle_server_def Let_def json_Marshal_Response)

text \<open>
  Claim C5. For every slider event that decodes, the slider handler answers with status
  200, the JSON content type and the encoding of the Slider/SetFill command whose object
  is the event's name and whose first argument is the event's value, each taken as it
  is, with no check. Both variants.
\<close>

theorem slider_passthrough:
  "fst (replySliderHandler (Inr rx) w) =
     \<lparr>status = StatusOK, header = [(''Content-Type'', contentType)],
      body = Response_json \<lparr>Type = ''Slider'', Object = Name rx, Function = ''SetFill'', Arg1 = Value rx,
         Arg2 = [], Arg3 = []\<rparr>\<rparr>
   \<and> fst (replySliderHandler_server (Inr rx) w) =
     \<lparr>status = StatusOK, header = [(''Content-Type'', contentType)],
      body = Response_json \<lparr>Type = ''Slider'', Object = Name rx, Function = ''SetFill'', Arg1 = Value rx,
         Arg2 = [], Arg3 = []\<rparr>\<rparr>"
  by (simp add: replySliderHandler_def replySliderHandler_server_def Let_def
      json_Marshal_Response writeReply_def)

text \<open>
  Claim C10. The functions \<^verbatim>\<open>btnVisStateToggle\<close> of the two files are equal as functions,
  and so are the two slider handlers (hence their response bodies).
\<close>

theorem variants_agree:
  "btnVisStateToggle_server = btnVisStateToggle
   \<and> replySliderHandler_server = replySliderHandler"
  by (intro conjI ext)
     (simp_all add: btnVisStateToggle_server_def btnVisStateToggle_def
        replySliderHandler_server_def replySliderHandler_def
        dontToggleButtons_def dontToggleButtons_server_def)

text \<open>
  Claim C9. Encoding a \<^verbatim>\<open>Response\<close> never returns an error: all its fields are strings,
  which the encoder always accepts. So \<^verbatim>\<open>btnVisStateToggle\<close> never returns an error and
  neither the button handler nor the slider handler ever answers with status 500, in
  both variants.
\<close>

theorem marshal_never_fails:
  "snd (json_Marshal (Response_value r)) = None
   \<and> snd (fst (btnVisStateToggle rx w)) = None
   \<and> snd (fst (btnVisStateToggle_server rx w)) = None
   \<and> status (fst (replyButtonHandler d w)) \<noteq> StatusInternalServerError
   \<and> status (fst (replySliderHandler d w)) \<noteq> StatusInternalServerError
   \<and> status (fst (replyButtonHandler_server d w)) \<noteq> StatusInternalServerError
   \<and> status (fst (replySliderHandler_server d w)) \<noteq> StatusInternalServerError"
  by (simp add: json_Marshal_Response btnVisStateToggle_def btnVisStateToggle_server_def
      replyButtonHandler_def replySliderHandler_def replyButtonHandler_server_def
      replySliderHandler_server_def Let_def writeReply_def http_Error_def StatusOK_def
      StatusBadRequest_def StatusInternalServerError_def split: sum.splits)




section \<open>Properties of the connection manager\<close>

lemma Println_fields [simp]:
  "conn (Println xs w) = conn w" "open_conns (Println xs w) = open_conns w"
  "dials (Println xs w) = dials w" "wire (Println xs w) = wire w"
  "next_fd (Println xs w) = next_fd w" "panic (Println xs w) = panic w"
  "connErr (Println xs w) = connErr w"
  by (simp_all add: Println_def)

lemma Print_fields [simp]:
  "conn (Print s w) = conn w" "open_conns (Print s w) = open_conns w"
  "dials (Print s w) = dials w" "wire (Print s w) = wire w"
  "next_fd (Print s w) = next_fd w" "panic (Print s w) = panic w"
  "connErr (Print s w) = connErr w"
  by (simp_all add: Print_def)

subsection \<open>What each operation does, case by case\<close>

lemma getConn_connected: "conn w \<noteq> None \<Longrightarrow> getConn d w = ((conn w, None), w)"
  by (auto simp add: getConn_def)

lemma getConn_cases:
  "getConn d w =
    (case conn w of
       Some c \<Rightarrow> ((Some c, None), w)
     | None \<Rightarrow>
        (case d of
           DialError e \<Rightarrow> ((None, Some e),
              (Println [''No existing connection.  Attempting to establish.''] w)
                \<lparr>dials := dials w + 1, conn := None, connErr := Some e\<rparr>)
         | DialOK a \<Rightarrow> ((Some (Conn (next_fd w) a), None),
              Println [''Connected'', a, ''>'', ProcessorAddr]
               ((Println [''No existing connection.  Attempting to establish.''] w)
                \<lparr>open_conns := insert (Conn (next_fd w) a) (open_conns w),
                  next_fd := next_fd w + 1, dials := dials w + 1,
                  conn := Some (Conn (next_fd w) a), connErr := None\<rparr>))))"
  by (simp add: getConn_def net_Dial_def Let_def split: option.splits dial_outcome.splits)

lemma getConn_dial_ok:
  "conn w = None \<Longrightarrow> getConn (DialOK a) w = ((Some (Conn (next_fd w) a), None),
      Println [''Connected'', a, ''>'', ProcessorAddr]
        ((Println [''No existing connection.  Attempting to establish.''] w)
           \<lparr>open_conns := insert (Conn (next_fd w) a) (open_conns w),
             next_fd := next_fd w + 1, dials := dials w + 1,
             conn := Some (Conn (next_fd w) a), connErr := None\<rparr>))"
  by (simp add: getConn_cases)

lemma getConn_acquired:
  "fst (getConn d w) = (Some c, None) \<Longrightarrow> conn (snd (getConn d w)) = Some c"
  by (cases "conn w"; cases d) (simp_all add: getConn_cases)

lemma send_connected:
  "conn w = Some c \<Longrightarrow> sendToProcessor ev d w =
     (case on_NewRequest ev of
        Some e \<Rightarrow> Println [''Error creating HTTP request:'', e] w
      | None \<Rightarrow>
          (case on_Write ev of
             Some e \<Rightarrow> (Close c (Println [''Error sending HTTP request:'', e] w))\<lparr>conn := None\<rparr>
           | None \<Rightarrow>
               w\<lparr>wire := wire w @ [(c, \<lparr>Method = ''POST'', URL = ''/'',
                    Header = [(''Content-Type'', contentType)], Body = d\<rparr>)]\<rparr>))"
  by (simp add: sendToProcessor_def getConn_connected Let_def closeConn_def
      split: option.splits)

lemma send_dial_error:
  "conn w = None \<Longrightarrow> on_Dial ev = DialError e \<Longrightarrow> sendToProcessor ev d w =
     Println [''Error connecting to client:'', e]
       ((Println [''No existing connection.  Attempting to establish.''] w)
          \<lparr>dials := dials w + 1, conn := None, connErr := Some e\<rparr>)"
  by (simp add: sendToProcessor_def getConn_cases Let_def)

text \<open>
  A send that dials with success goes on as a send from the connected state. The
  equation rewrites its own right-hand side, so it is used instantiated, never as a
  simplification rule.
\<close>

lemma send_dial_ok:
  "conn w = None \<Longrightarrow> on_Dial ev = DialOK a \<Longrightarrow>
     sendToProcessor ev d w = sendToProcessor ev d (snd (getConn (DialOK a) w))"
  by (simp add: sendToProcessor_def getConn_dial_ok getConn_connected Let_def)

lemma send_acquired:
  "fst (getConn (on_Dial ev) w) = (Some c, None) \<Longrightarrow>
     sendToProcessor ev d w = sendToProcessor ev d (snd (getConn (on_Dial ev) w))"
proof (cases "conn w")
  case None
  assume a: "fst (getConn (on_Dial ev) w) = (Some c, None)"
  show ?thesis
  proof (cases "on_Dial ev")
    case (DialError e)
    with None a show ?thesis by (simp add: getConn_cases)
  next
    case (DialOK a)
    show ?thesis using send_dial_ok [OF None DialOK, of d] DialOK by simp
  qed
next
  case (Some k)
  then show ?thesis by (simp add: getConn_connected)
qed

lemma send_write_fails:
  assumes "fst (getConn (on_Dial ev) w) = (Some c, None)" "write_fails ev"
  shows "sendToProcessor ev d w =
     (Close c (Println [''Error sending HTTP request:'', the (on_Write ev)]
        (snd (getConn (on_Dial ev) w))))\<lparr>conn := None\<rparr>"
proof -
  have "conn (snd (getConn (on_Dial ev) w)) = Some c" using assms(1) by (rule getConn_acquired)
  then have "sendToProcessor ev d (snd (getConn (on_Dial ev) w)) =
     (Close c (Println [''Error sending HTTP request:'', the (on_Write ev)]
        (snd (getConn (on_Dial ev) w))))\<lparr>conn := None\<rparr>"
    using assms(2) by (cases "on_Write ev") (simp_all add: send_connected write_fails_def)
  then show ?thesis using send_acquired [OF assms(1), of d] by simp
qed

lemma send_dials_connected:
  "conn w = Some c \<Longrightarrow> dials (sendToProcessor ev d w) = dials w"
  by (cases "on_NewRequest ev"; cases "on_Write ev") (simp_all add: send_connected Close_def)

lemma send_dials_disconnected:
  "conn w = None \<Longrightarrow> dials (sendToProcessor ev d w) = dials w + 1"
proof (cases "on_Dial ev")
  case (DialError e)
  assume "conn w = None"
  with DialError show ?thesis by (simp add: send_dial_error)
next
  case (DialOK a)
  assume n: "conn w = None"
  have "conn (snd (getConn (DialOK a) w)) = Some (Conn (next_fd w) a)"
    using n by (simp add: getConn_dial_ok)
  then have "dials (sendToProcessor ev d (snd (getConn (DialOK a) w)))
      = dials (snd (getConn (DialOK a) w))"
    by (rule send_dials_connected)
  then show ?thesis using send_dial_ok [OF n DialOK, of d] n by (simp add: getConn_dial_ok)
qed

lemma send_stays_connected:
  "conn w = Some c \<Longrightarrow> \<not> write_fails ev \<Longrightarrow> conn (sendToProcessor ev d w) = Some c"
  by (cases "on_NewRequest ev"; cases "on_Write ev") (simp_all add: send_connected write_fails_def)

subsection \<open>The invariants\<close>

lemma getConn_invariant: "live_invariant w \<Longrightarrow> live_invariant (snd (getConn d w))"
  by (auto simp: getConn_cases live_invariant_def split: option.splits dial_outcome.splits)

lemma closeConn_invariant: "live_invariant w \<Longrightarrow> live_invariant (closeConn w)"
  by (auto simp: closeConn_def Close_def live_invariant_def split: option.splits)

lemma sendToProcessor_invariant: "live_invariant w \<Longrightarrow> live_invariant (sendToProcessor ev d w)"
  by (auto simp: sendToProcessor_def getConn_cases closeConn_def Close_def live_invariant_def
      Let_def split: option.splits dial_outcome.splits)

lemma reachable_invariant: "reachable w \<Longrightarrow> live_invariant w"
proof (induction rule: reachable.induct)
  case start
  show ?case by (simp add: live_invariant_def initial_def)
qed (simp_all add: getConn_invariant closeConn_invariant sendToProcessor_invariant)

lemma live_invariant_cases:
  "live_invariant w \<longleftrightarrow>
     (conn w = None \<and> open_conns w = {}) \<or> (\<exists>c. conn w = Some c \<and> open_conns w = {c})"
  by (cases "conn w") (auto simp: live_invariant_def)

lemma getConn_fresh: "fresh_invariant w \<Longrightarrow> fresh_invariant (snd (getConn d w))"
proof (cases "conn w")
  case None
  assume f: "fresh_invariant w"
  show ?thesis
  proof (cases d)
    case (DialError e)
    with None f show ?thesis by (simp add: getConn_cases fresh_invariant_def)
  next
    case (DialOK a)
    with None f show ?thesis by (simp add: getConn_cases fresh_invariant_def less_SucI)
  qed
next
  case (Some c)
  assume "fresh_invariant w"
  with Some show ?thesis by (simp add: getConn_cases)
qed

lemma closeConn_fresh: "fresh_invariant w \<Longrightarrow> fresh_invariant (closeConn w)"
  by (cases "conn w") (simp_all add: closeConn_def Close_def fresh_invariant_def)

lemma send_connected_fresh:
  "conn w = Some c \<Longrightarrow> fresh_invariant w \<Longrightarrow> fresh_invariant (sendToProcessor ev d w)"
  by (cases "on_NewRequest ev"; cases "on_Write ev")
     (simp_all add: send_connected Close_def fresh_invariant_def)

lemma send_fresh: "fresh_invariant w \<Longrightarrow> fresh_invariant (sendToProcessor ev d w)"
proof (cases "conn w")
  case None
  assume f: "fresh_invariant w"
  show ?thesis
  proof (cases "on_Dial ev")
    case (DialError e)
    with None f show ?thesis by (simp add: send_dial_error fresh_invariant_def)
  next
    case (DialOK a)
    have "conn (snd (getConn (DialOK a) w)) = Some (Conn (next_fd w) a)"
      using None by (simp add: getConn_dial_ok)
    moreover have "fresh_invariant (snd (getConn (DialOK a) w))" using f by (rule getConn_fresh)
    ultimately have "fresh_invariant (sendToProcessor ev d (snd (getConn (DialOK a) w)))"
      by (rule send_connected_fresh)
    then show ?thesis using send_dial_ok [OF None DialOK, of d] by simp
  qed
next
  case (Some c)
  assume "fresh_invariant w"
  with Some show ?thesis by (rule send_connected_fresh)
qed

lemma reachable_fresh: "reachable w \<Longrightarrow> fresh_invariant w"
proof (induction rule: reachable.induct)
  case start
  show ?case by (simp add: initial_def fresh_invariant_def)
qed (simp_all add: getConn_fresh closeConn_fresh send_fresh)

lemmas run_defs = sendToProcessor_def getConn_def net_Dial_def closeConn_def Close_def Println_def
  Let_def initial_def healthy_def broken_pipe_def refused_def write_fails_def

subsection \<open>Claims about the connection manager\<close>

text \<open>
  Claim C1. In every state the connection manager reaches, either the shared connection
  is \<^verbatim>\<open>nil\<close> and no connection is live, or it is set and the live connections are that
  one alone; in either case at most one connection is live. Each of the three operations
  (\<^verbatim>\<open>getConn\<close>, \<^verbatim>\<open>closeConn\<close>, \<^verbatim>\<open>sendToProcessor\<close>) keeps the invariant, whatever the
  network does.
\<close>

theorem single_live_connection:
  "(reachable w \<longrightarrow>
      ((conn w = None \<and> open_conns w = {}) \<or> (\<exists>c. conn w = Some c \<and> open_conns w = {c}))
      \<and> card (open_conns w) \<le> 1)
   \<and> (live_invariant w \<longrightarrow>
        live_invariant (snd (getConn d w)) \<and> live_invariant (closeConn w)
        \<and> live_invariant (sendToProcessor ev data_to_send w))"
proof (intro conjI impI)
  assume r: "reachable w"
  then have "live_invariant w" by (rule reachable_invariant)
  then show "(conn w = None \<and> open_conns w = {}) \<or> (\<exists>c. conn w = Some c \<and> open_conns w = {c})"
    by (simp add: live_invariant_cases)
  then show "card (open_conns w) \<le> 1" by auto
qed (simp_all add: getConn_invariant closeConn_invariant sendToProcessor_invariant)

theorem single_live_connection_witness:
  "reachable (sendToProcessor healthy ''x'' initial)
   \<and> conn (sendToProcessor healthy ''x'' initial) = Some (Conn 0 ''192.168.253.8:50000'')
   \<and> open_conns (sendToProcessor healthy ''x'' initial) = {Conn 0 ''192.168.253.8:50000''}
   \<and> card (open_conns (sendToProcessor healthy ''x'' initial)) \<le> 1
   \<and> live_invariant (sendToProcessor healthy ''x'' initial)
   \<and> live_invariant (closeConn (sendToProcessor healthy ''x'' initial))
   \<and> live_invariant (sendToProcessor broken_pipe ''y'' (sendToProcessor healthy ''x'' initial))"
proof -
  have r: "reachable (sendToProcessor healthy ''x'' initial)"
    by (rule reachable.send) (rule reachable.start)
  have c: "conn (sendToProcessor healthy ''x'' initial) = Some (Conn 0 ''192.168.253.8:50000'')"
    by (simp add: sendToProcessor_def getConn_cases healthy_def initial_def Let_def)
  have l: "live_invariant (sendToProcessor healthy ''x'' initial)"
    by (simp add: sendToProcessor_def getConn_cases healthy_def initial_def Let_def live_invariant_def)
  from r c l
    single_live_connection
    [of "sendToProcessor healthy ''x'' initial" "DialError ''connect: connection refused''"
      broken_pipe "''y''"]
  show ?thesis by simp
qed

text \<open>
  Claim C2, amended. In \<^verbatim>\<open>part_000\<close>: when a send that is issued in a reachable state has
  acquired the connection \<open>c\<close> and its write fails, the shared connection is \<^verbatim>\<open>nil\<close>
  afterwards, no connection is live, and nothing was written; the send that follows
  calls \<^verbatim>\<open>net.Dial\<close> exactly once, whatever its outcome, and when that dial succeeds it
  gets a new connection, different from \<open>c\<close>, to which it writes its own data and nothing
  of the failed send.
\<close>

theorem failed_write_forces_redial:
  assumes "reachable w" and "fst (getConn (on_Dial ev) w) = (Some c, None)" and "write_fails ev"
  shows "conn (sendToProcessor ev d w) = None
    \<and> open_conns (sendToProcessor ev d w) = {}
    \<and> wire (sendToProcessor ev d w) = wire w
    \<and> dials (sendToProcessor ev' d' (sendToProcessor ev d w)) = dials (sendToProcessor ev d w) + 1
    \<and> (\<forall>a. on_Dial ev' = DialOK a \<longrightarrow>
          fst (getConn (on_Dial ev') (sendToProcessor ev d w))
            = (Some (Conn (next_fd (sendToProcessor ev d w)) a), None)
          \<and> Conn (next_fd (sendToProcessor ev d w)) a \<noteq> c
          \<and> (on_NewRequest ev' = None \<and> on_Write ev' = None \<longrightarrow>
               wire (sendToProcessor ev' d' (sendToProcessor ev d w)) =
                 wire w @ [(Conn (next_fd (sendToProcessor ev d w)) a,
                   \<lparr>Method = ''POST'', URL = ''/'', Header = [(''Content-Type'', contentType)],
                    Body = d'\<rparr>)]))"
proof -
  let ?g = "snd (getConn (on_Dial ev) w)"
  let ?w1 = "sendToProcessor ev d w"
  have eq: "?w1 = (Close c (Println [''Error sending HTTP request:'', the (on_Write ev)] ?g))
      \<lparr>conn := None\<rparr>"
    using assms(2,3) by (rule send_write_fails)
  have c1: "conn ?w1 = None" by (simp add: eq)
  have "reachable ?w1" using assms(1) by (rule reachable.send)
  then have "live_invariant ?w1" by (rule reachable_invariant)
  with c1 have o1: "open_conns ?w1 = {}" by (simp add: live_invariant_def)
  have "wire ?g = wire w"
    by (cases "conn w"; cases "on_Dial ev") (simp_all add: getConn_cases)
  then have w1: "wire ?w1 = wire w" by (simp add: eq Close_def)
  have d1: "dials (sendToProcessor ev' d' ?w1) = dials ?w1 + 1"
    using c1 by (rule send_dials_disconnected)
  have acq: "reachable ?g" using assms(1) by (rule reachable.acquire)
  have "c \<in> open_conns ?g"
    using reachable_invariant [OF acq] getConn_acquired [OF assms(2)]
    by (simp add: live_invariant_def)
  with reachable_fresh [OF acq] have "fd c < next_fd ?g" by (simp add: fresh_invariant_def)
  then have lt: "fd c < next_fd ?w1" by (simp add: eq Close_def)
  have rest: "\<forall>a. on_Dial ev' = DialOK a \<longrightarrow>
          fst (getConn (on_Dial ev') ?w1) = (Some (Conn (next_fd ?w1) a), None)
          \<and> Conn (next_fd ?w1) a \<noteq> c
          \<and> (on_NewRequest ev' = None \<and> on_Write ev' = None \<longrightarrow>
               wire (sendToProcessor ev' d' ?w1) =
                 wire w @ [(Conn (next_fd ?w1) a,
                   \<lparr>Method = ''POST'', URL = ''/'', Header = [(''Content-Type'', contentType)],
                    Body = d'\<rparr>)])"
  proof (intro allI impI)
    fix a assume ok: "on_Dial ev' = DialOK a"
    have g: "fst (getConn (on_Dial ev') ?w1) = (Some (Conn (next_fd ?w1) a), None)"
      using c1 ok by (simp add: getConn_dial_ok)
    have ne: "Conn (next_fd ?w1) a \<noteq> c" using lt by (cases c) auto
    have wr: "on_NewRequest ev' = None \<and> on_Write ev' = None \<longrightarrow>
               wire (sendToProcessor ev' d' ?w1) =
                 wire w @ [(Conn (next_fd ?w1) a,
                   \<lparr>Method = ''POST'', URL = ''/'', Header = [(''Content-Type'', contentType)],
                    Body = d'\<rparr>)]"
    proof
      assume h: "on_NewRequest ev' = None \<and> on_Write ev' = None"
      have cc: "conn (snd (getConn (DialOK a) ?w1)) = Some (Conn (next_fd ?w1) a)"
        using c1 by (simp add: getConn_dial_ok)
      have "wire (sendToProcessor ev' d' (snd (getConn (DialOK a) ?w1))) =
          wire (snd (getConn (DialOK a) ?w1)) @ [(Conn (next_fd ?w1) a,
                   \<lparr>Method = ''POST'', URL = ''/'', Header = [(''Content-Type'', contentType)],
                    Body = d'\<rparr>)]"
        using h by (simp add: send_connected [OF cc])
      moreover have "wire (snd (getConn (DialOK a) ?w1)) = wire w"
        using c1 w1 by (simp add: getConn_dial_ok)
      ultimately show "wire (sendToProcessor ev' d' ?w1) =
                 wire w @ [(Conn (next_fd ?w1) a,
                   \<lparr>Method = ''POST'', URL = ''/'', Header = [(''Content-Type'', contentType)],
                    Body = d'\<rparr>)]"
        using send_dial_ok [OF c1 ok, of d'] by simp
    qed
    from g ne wr show "fst (getConn (on_Dial ev') ?w1) = (Some (Conn (next_fd ?w1) a), None)
          \<and> Conn (next_fd ?w1) a \<noteq> c
          \<and> (on_NewRequest ev' = None \<and> on_Write ev' = None \<longrightarrow>
               wire (sendToProcessor ev' d' ?w1) =
                 wire w @ [(Conn (next_fd ?w1) a,
                   \<lparr>Method = ''POST'', URL = ''/'', Header = [(''Content-Type'', contentType)],
                    Body = d'\<rparr>)])" by blast
  qed
  from c1 o1 w1 d1 rest show ?thesis by blast
qed

theorem failed_write_forces_redial_witness:
  "reachable initial
   \<and> fst (getConn (on_Dial broken_pipe) initial) = (Some (Conn 0 ''192.168.253.8:50000''), None)
   \<and> write_fails broken_pipe
   \<and> conn (sendToProcessor broken_pipe ''a'' initial) = None
   \<and> open_conns (sendToProcessor broken_pipe ''a'' initial) = {}
   \<and> wire (sendToProcessor broken_pipe ''a'' initial) = []
   \<and> dials (sendToProcessor healthy ''b'' (sendToProcessor broken_pipe ''a'' initial)) = 2
   \<and> wire (sendToProcessor healthy ''b'' (sendToProcessor broken_pipe ''a'' initial)) =
        [(Conn 1 ''192.168.253.8:50000'',
          \<lparr>Method = ''POST'', URL = ''/'', Header = [(''Content-Type'', contentType)],
           Body = ''b''\<rparr>)]"
proof -
  have r: "reachable initial" by (rule reachable.start)
  have g: "fst (getConn (on_Dial broken_pipe) initial) = (Some (Conn 0 ''192.168.253.8:50000''), None)"
    by (simp add: run_defs)
  have f: "write_fails broken_pipe" by (simp add: run_defs)
  have n: "next_fd (sendToProcessor broken_pipe ''a'' initial) = 1" by (simp add: run_defs)
  have d: "dials (sendToProcessor broken_pipe ''a'' initial) = 1" by (simp add: run_defs)
  have w: "wire initial = []" by (simp add: initial_def)
  have h: "on_Dial healthy = DialOK ''192.168.253.8:50000''" "on_NewRequest healthy = None"
    "on_Write healthy = None" by (simp_all add: healthy_def)
  from failed_write_forces_redial [OF r g f, of "''a''" healthy "''b''"] r g f n d w h
  show ?thesis by simp
qed

text \<open>
  Claim C2 fails as stated on \<^verbatim>\<open>server.go\<close>, which has no reconnection: after a failed
  write \<^verbatim>\<open>sendTestSetLabel\<close> only prints the error, the connection stays open, and the
  next call writes to the same connection without any dial.
\<close>

theorem server_reuses_failed_connection:
  "open_conns (sendTestSetLabel_server (Conn 0 ''192.168.253.8:50000'') (utc 0) broken_pipe
      (snd (net_Dial (DialOK ''192.168.253.8:50000'') initial)))
     = {Conn 0 ''192.168.253.8:50000''}
   \<and> dials (sendTestSetLabel_server (Conn 0 ''192.168.253.8:50000'') (utc 1000000000) healthy
       (sendTestSetLabel_server (Conn 0 ''192.168.253.8:50000'') (utc 0) broken_pipe
         (snd (net_Dial (DialOK ''192.168.253.8:50000'') initial)))) = 1
   \<and> map fst (wire (sendTestSetLabel_server (Conn 0 ''192.168.253.8:50000'') (utc 1000000000) healthy
       (sendTestSetLabel_server (Conn 0 ''192.168.253.8:50000'') (utc 0) broken_pipe
         (snd (net_Dial (DialOK ''192.168.253.8:50000'') initial)))))
     = [Conn 0 ''192.168.253.8:50000'']"
  by (simp add: sendTestSetLabel_server_def json_Marshal_Response run_defs)

text \<open>
  Claim C6, amended. \<^verbatim>\<open>getConn\<close> in a connected state returns the existing connection and
  changes nothing, whatever a dial would have done. Two sends in a row from a connected
  state dial no more, and two sends in a row from the disconnected state whose first dial
  succeeds dial once in total, provided the write of the first send does not fail.
\<close>

theorem connected_sends_do_not_redial:
  "(conn w \<noteq> None \<longrightarrow> getConn d w = ((conn w, None), w))
   \<and> (conn w \<noteq> None \<and> \<not> write_fails ev1 \<longrightarrow>
        dials (sendToProcessor ev2 d2 (sendToProcessor ev1 d1 w)) = dials w)
   \<and> (conn w = None \<and> on_Dial ev1 = DialOK a \<and> \<not> write_fails ev1 \<longrightarrow>
        dials (sendToProcessor ev2 d2 (sendToProcessor ev1 d1 w)) = dials w + 1)"
proof (intro conjI impI)
  assume "conn w \<noteq> None"
  then show "getConn d w = ((conn w, None), w)" by (rule getConn_connected)
next
  assume "conn w \<noteq> None \<and> \<not> write_fails ev1"
  then obtain c where c: "conn w = Some c" and nf: "\<not> write_fails ev1" by auto
  have "conn (sendToProcessor ev1 d1 w) = Some c" using c nf by (rule send_stays_connected)
  then have "dials (sendToProcessor ev2 d2 (sendToProcessor ev1 d1 w)) = dials (sendToProcessor ev1 d1 w)"
    by (rule send_dials_connected)
  also have "\<dots> = dials w" using c by (rule send_dials_connected)
  finally show "dials (sendToProcessor ev2 d2 (sendToProcessor ev1 d1 w)) = dials w" .
next
  assume h: "conn w = None \<and> on_Dial ev1 = DialOK a \<and> \<not> write_fails ev1"
  let ?g = "snd (getConn (DialOK a) w)"
  from h have n: "conn w = None" and ok: "on_Dial ev1 = DialOK a" and nf: "\<not> write_fails ev1"
    by auto
  have cg: "conn ?g = Some (Conn (next_fd w) a)" using n by (simp add: getConn_dial_ok)
  have s1: "sendToProcessor ev1 d1 w = sendToProcessor ev1 d1 ?g" using n ok by (rule send_dial_ok)
  have "conn (sendToProcessor ev1 d1 ?g) = Some (Conn (next_fd w) a)"
    using cg nf by (rule send_stays_connected)
  then have "dials (sendToProcessor ev2 d2 (sendToProcessor ev1 d1 ?g)) = dials (sendToProcessor ev1 d1 ?g)"
    by (rule send_dials_connected)
  also have "\<dots> = dials ?g" using cg by (rule send_dials_connected)
  also have "\<dots> = dials w + 1" using n by (simp add: getConn_dial_ok)
  finally show "dials (sendToProcessor ev2 d2 (sendToProcessor ev1 d1 w)) = dials w + 1"
    using s1 by simp
qed

theorem connected_sends_do_not_redial_witness:
  "conn (snd (getConn (DialOK ''192.168.253.8:50000'') initial)) \<noteq> None
   \<and> getConn (DialError ''connect: connection refused'') (snd (getConn (DialOK ''192.168.253.8:50000'') initial))
       = ((conn (snd (getConn (DialOK ''192.168.253.8:50000'') initial)), None),
          snd (getConn (DialOK ''192.168.253.8:50000'') initial))
   \<and> \<not> write_fails healthy
   \<and> dials (snd (getConn (DialOK ''192.168.253.8:50000'') initial)) = 1
   \<and> dials (sendToProcessor refused ''b'' (sendToProcessor healthy ''a''
        (snd (getConn (DialOK ''192.168.253.8:50000'') initial)))) = 1
   \<and> conn initial = None
   \<and> on_Dial healthy = DialOK ''192.168.253.8:50000''
   \<and> dials (sendToProcessor refused ''b'' (sendToProcessor healthy ''a'' initial)) = 1"
proof -
  let ?w = "snd (getConn (DialOK ''192.168.253.8:50000'') initial)"
  have c: "conn ?w \<noteq> None" by (simp add: run_defs)
  have f: "\<not> write_fails healthy" by (simp add: run_defs)
  have d: "dials ?w = 1" by (simp add: run_defs)
  have i: "conn initial = None" "dials initial = 0" by (simp_all add: initial_def)
  have h: "on_Dial healthy = DialOK ''192.168.253.8:50000''" by (simp add: healthy_def)
  from connected_sends_do_not_redial [of ?w "DialError ''connect: connection refused''" healthy
      refused "''b''" "''a''"]
    connected_sends_do_not_redial [of initial "DialError ''connect: connection refused''" healthy
      refused "''b''" "''a''" "''192.168.253.8:50000''"]
    c f d i h
  show ?thesis by simp
qed

text \<open>
  Claim C6 fails as stated when the write of the first send fails: the first send dials
  with success, its write fails and closes the connection, and the second send dials
  again, two dials in total.
\<close>

theorem two_sends_two_dials:
  "fst (getConn (on_Dial broken_pipe) initial) = (Some (Conn 0 ''192.168.253.8:50000''), None)
   \<and> dials (sendToProcessor healthy ''b'' (sendToProcessor broken_pipe ''a'' initial)) = 2"
  by (simp add: run_defs)

section \<open>Properties of the process\<close>

lemma send_no_panic: "panic w = None \<Longrightarrow> panic (sendToProcessor ev d w) = None"
proof (cases "conn w")
  case None
  assume p: "panic w = None"
  show ?thesis
  proof (cases "on_Dial ev")
    case (DialError e)
    with None p show ?thesis by (simp add: send_dial_error)
  next
    case (DialOK a)
    have c: "conn (snd (getConn (DialOK a) w)) = Some (Conn (next_fd w) a)"
      using None by (simp add: getConn_dial_ok)
    have "panic (snd (getConn (DialOK a) w)) = None" using None p by (simp add: getConn_dial_ok)
    then have "panic (sendToProcessor ev d (snd (getConn (DialOK a) w))) = None"
      by (cases "on_NewRequest ev"; cases "on_Write ev")
         (simp_all add: send_connected [OF c] Close_def)
    then show ?thesis using send_dial_ok [OF None DialOK, of d] by simp
  qed
next
  case (Some c)
  assume "panic w = None"
  then show ?thesis
    by (cases "on_NewRequest ev"; cases "on_Write ev")
       (simp_all add: send_connected [OF Some] Close_def)
qed

lemma tick_no_panic: "panic w = None \<Longrightarrow> panic (sendTestSetLabel now ev w) = None"
  by (simp add: sendTestSetLabel_def Let_def json_Marshal_Response send_no_panic)

lemma tick_server_no_panic:
  "panic w = None \<Longrightarrow> panic (sendTestSetLabel_server c now ev w) = None"
  by (cases "on_NewRequest ev"; cases "on_Write ev")
     (simp_all add: sendTestSetLabel_server_def Let_def json_Marshal_Response)

lemma handlers_panic:
  "panic (snd (replyButtonHandler d w)) = panic w"
  "panic (snd (replySliderHandler d w)) = panic w"
  "panic (snd (replyTestHandler w)) = panic w"
  "panic (snd (replyButtonHandler_server d w)) = panic w"
  "panic (snd (replySliderHandler_server d w)) = panic w"
  "panic (snd (replyTestHandler_server w)) = panic w"
  by (cases d; simp add: replyButtonHandler_def replySliderHandler_def replyTestHandler_def
      replyButtonHandler_server_def replySliderHandler_server_def replyTestHandler_server_def
      btnVisStateToggle_def btnVisStateToggle_server_def Let_def json_Marshal_Response)+

lemma serve_step:
  "panic (snd st) = None \<Longrightarrow>
     panic (snd (serve e st)) = None
     \<and> length (fst (serve e st)) = length (fst st) + (if is_request e then 1 else 0)"
  by (cases st; cases e) (simp_all add: is_request_def tick_no_panic handlers_panic)

lemma serve_server_step:
  "panic (snd st) = None \<Longrightarrow>
     panic (snd (serve_server c e st)) = None
     \<and> length (fst (serve_server c e st)) = length (fst st) + (if is_request e then 1 else 0)"
  by (cases st; cases e) (simp_all add: is_request_def tick_server_no_panic handlers_panic)

lemma run_alive:
  "panic (snd st) = None \<Longrightarrow>
     panic (snd (run evs st)) = None
     \<and> length (fst (run evs st)) = length (fst st) + length (filter is_request evs)"
proof (induction evs arbitrary: st)
  case Nil
  then show ?case by simp
next
  case (Cons e es)
  from serve_step [OF Cons.prems, of e] Cons.IH [of "serve e st"] Cons.prems
  show ?case by simp
qed

lemma run_server_alive:
  "panic (snd st) = None \<Longrightarrow>
     panic (snd (run_server c evs st)) = None
     \<and> length (fst (run_server c evs st)) = length (fst st) + length (filter is_request evs)"
proof (induction evs arbitrary: st)
  case Nil
  then show ?case by simp
next
  case (Cons e es)
  from serve_server_step [OF Cons.prems, of c e] Cons.IH [of "serve_server c e st"] Cons.prems
  show ?case by simp
qed

lemma tick_dial_failure:
  "conn w = None \<Longrightarrow> on_Dial ev = DialError e \<Longrightarrow>
     sendTestSetLabel now ev w =
       w\<lparr>stdout := stdout w @ ''No existing connection.  Attempting to establish.'' @ [CHR 0x0A]
            @ ''Error connecting to client: '' @ e @ [CHR 0x0A],
         dials := dials w + 1, conn := None, connErr := Some e\<rparr>"
  by (simp add: sendTestSetLabel_def Let_def json_Marshal_Response send_dial_error Println_def)

text \<open>
  Claim C4, amended. In \<^verbatim>\<open>part_000\<close>, once the server listens, the process keeps running
  whatever happens to the connection: after any sequence of ticks and requests, with any
  outcome of every dial, request construction and write, \<^verbatim>\<open>main\<close> has neither returned
  nor crashed, and every request has got its response. A tick whose dial fails prints
  the two lines (the attempt and the error), counts one dial, leaves the connection
  \<^verbatim>\<open>nil\<close>, writes nothing and returns. In \<^verbatim>\<open>server.go\<close> the same holds of the running
  process once the dial made by \<^verbatim>\<open>main\<close> has succeeded.
\<close>

theorem transport_failures_not_fatal:
  "(\<exists>rs w'. main None evs = Running rs w' \<and> length rs = length (filter is_request evs))
   \<and> (conn w = None \<and> on_Dial ev = DialError e \<longrightarrow>
        sendTestSetLabel now ev w =
          w\<lparr>stdout := stdout w @ ''No existing connection.  Attempting to establish.'' @ [CHR 0x0A]
               @ ''Error connecting to client: '' @ e @ [CHR 0x0A],
            dials := dials w + 1, conn := None, connErr := Some e\<rparr>)
   \<and> (\<exists>rs w'. main_server (DialOK a) None evs = Running rs w'
          \<and> length rs = length (filter is_request evs))"
proof (intro conjI impI)
  let ?st = "([], Println [''Starting server at'', ServerAddr] initial)"
  have "panic (snd ?st) = None" by (simp add: initial_def)
  from run_alive [OF this, of evs]
  show "\<exists>rs w'. main None evs = Running rs w' \<and> length rs = length (filter is_request evs)"
    by (simp add: main_def outcome_def Let_def)
next
  assume "conn w = None \<and> on_Dial ev = DialError e"
  then show "sendTestSetLabel now ev w =
          w\<lparr>stdout := stdout w @ ''No existing connection.  Attempting to establish.'' @ [CHR 0x0A]
               @ ''Error connecting to client: '' @ e @ [CHR 0x0A],
            dials := dials w + 1, conn := None, connErr := Some e\<rparr>"
    by (simp add: tick_dial_failure)
next
  let ?st = "([], Println [''Starting server at'', ServerAddr] (snd (net_Dial (DialOK a) initial)))"
  have "panic (snd ?st) = None" by (simp add: initial_def net_Dial_def)
  from run_server_alive [OF this, of "Conn 0 a" evs]
  show "\<exists>rs w'. main_server (DialOK a) None evs = Running rs w'
          \<and> length rs = length (filter is_request evs)"
    by (simp add: main_server_def outcome_def net_Dial_def initial_def Let_def)
qed

theorem transport_failures_not_fatal_witness:
  "(\<exists>rs w'. main None [Tick (utc 0) refused, TestRequest, Tick (utc 20000000) refused,
        ButtonRequest (Inl ''unexpected EOF'')] = Running rs w' \<and> length rs = 2)
   \<and> conn initial = None
   \<and> on_Dial refused = DialError ''connect: connection refused''
   \<and> sendTestSetLabel (utc 0) refused initial =
        initial\<lparr>stdout := ''No existing connection.  Attempting to establish.'' @ [CHR 0x0A]
             @ ''Error connecting to client: connect: connection refused'' @ [CHR 0x0A],
          dials := 1, connErr := Some ''connect: connection refused''\<rparr>
   \<and> (\<exists>rs w'. main_server (DialOK ''192.168.253.8:50000'') None
        [Tick (utc 0) refused, TestRequest, Tick (utc 20000000) refused,
         ButtonRequest (Inl ''unexpected EOF'')] = Running rs w' \<and> length rs = 2)"
proof -
  let ?evs = "[Tick (utc 0) refused, TestRequest, Tick (utc 20000000) refused,
    ButtonRequest (Inl ''unexpected EOF'')]"
  note T = transport_failures_not_fatal
    [of ?evs initial refused "''connect: connection refused''" "utc 0" "''192.168.253.8:50000''"]
  have n: "length (filter is_request ?evs) = 2" by (simp add: is_request_def)
  have c: "conn initial = None" by (simp add: initial_def)
  have d: "on_Dial refused = DialError ''connect: connection refused''"
    by (simp add: refused_def)
  have a1: "\<exists>rs w'. main None ?evs = Running rs w' \<and> length rs = 2"
    using T [THEN conjunct1] unfolding n .
  have a2: "sendTestSetLabel (utc 0) refused initial =
        initial\<lparr>stdout := ''No existing connection.  Attempting to establish.'' @ [CHR 0x0A]
             @ ''Error connecting to client: connect: connection refused'' @ [CHR 0x0A],
          dials := 1, connErr := Some ''connect: connection refused''\<rparr>"
    using T [THEN conjunct2, THEN conjunct1] c d by (simp add: initial_def)
  have a3: "\<exists>rs w'. main_server (DialOK ''192.168.253.8:50000'') None ?evs = Running rs w'
      \<and> length rs = 2"
    using T [THEN conjunct2, THEN conjunct2] unfolding n .
  from a1 c d a2 a3 show ?thesis by (intro conjI)
qed

text \<open>
  Claim C4 fails as stated on \<^verbatim>\<open>server.go\<close>: when the dial in \<^verbatim>\<open>main\<close> fails, \<^verbatim>\<open>main\<close> prints
  the error and returns, so the process ends because of a dial failure, before the
  server listens and before any tick; the pending request and tick are never served.
\<close>

theorem server_exits_on_dial_failure:
  "main_server (DialError ''connect: connection refused'') None [TestRequest, Tick (utc 0) healthy]
     = Exited (initial\<lparr>dials := 1,
         stdout := ''Error connecting to client: connect: connection refused'' @ [CHR 0x0A]\<rparr>)"
  by (simp add: main_server_def net_Dial_def Println_def initial_def Let_def)

section \<open>Properties of the time label\<close>

subsection \<open>The digits of the clock\<close>

lemma digit_zero: "digit 0 = CHR ''0''"
proof -
  have "of_char (digit 0) = (of_char (CHR ''0'') :: nat)" by (simp add: digit_def)
  then show ?thesis by (simp only: of_char_eq_iff)
qed

lemma fixedWidth_zero: "fixedWidth k 0 = replicate k (CHR ''0'')"
  by (induction k) (simp_all add: digit_zero replicate_append_same)

lemma length_digits_pos: "0 < length (digits x)"
  by (subst digits.simps) simp

lemma appendInt_fixedWidth: "x < 10 ^ k \<Longrightarrow> 0 < k \<Longrightarrow> appendInt x k = fixedWidth k x"
proof (induction k arbitrary: x)
  case 0
  then show ?case by simp
next
  case (Suc k)
  show ?case
  proof (cases "x < 10")
    case True
    then show ?thesis
      by (simp add: appendInt_def digits.simps [of x] fixedWidth_zero)
  next
    case False
    then have d: "digits x = digits (x div 10) @ [digit (x mod 10)]"
      by (subst digits.simps) simp
    from Suc.prems have "x div 10 < 10 ^ k" by simp
    moreover from False this have "0 < k" by (cases k) simp_all
    ultimately have "appendInt (x div 10) k = fixedWidth k (x div 10)" by (rule Suc.IH)
    then show ?thesis by (simp add: appendInt_def d)
  qed
qed

lemma appendInt_2: "x < 100 \<Longrightarrow> appendInt x 2 = [digit (x div 10), digit (x mod 10)]"
proof -
  assume a: "x < 100"
  then have "x < 10 ^ 2" by simp
  then have "appendInt x 2 = fixedWidth 2 x" by (simp add: appendInt_fixedWidth)
  moreover have "x div 10 mod 10 = x div 10" using a by simp
  ultimately show ?thesis by (simp add: numeral_2_eq_2)
qed

lemma length_fixedWidth: "length (fixedWidth k x) = k"
  by (induction k arbitrary: x) simp_all

lemma take2_fixedWidth: "take 2 (fixedWidth (k + 2) n) = fixedWidth 2 (n div 10 ^ k)"
proof (induction k arbitrary: n)
  case 0
  show ?case using length_fixedWidth [of 2 n] by (simp add: numeral_2_eq_2)
next
  case (Suc k)
  have "fixedWidth (Suc k + 2) n = fixedWidth (k + 2) (n div 10) @ [digit (n mod 10)]"
    by (simp only: add_Suc fixedWidth.simps)
  then have "take 2 (fixedWidth (Suc k + 2) n) = take 2 (fixedWidth (k + 2) (n div 10))"
    by (simp del: fixedWidth.simps add: length_fixedWidth)
  also have "\<dots> = fixedWidth 2 (n div 10 div 10 ^ k)" by (rule Suc.IH)
  also have "n div 10 div 10 ^ k = n div 10 ^ Suc k" by (simp add: div_mult2_eq)
  finally show ?case .
qed

lemma take2_appendInt_9:
  assumes "n < 1000000000"
  shows "take 2 (appendInt n 9) = [digit (n div 100000000), digit (n div 10000000 mod 10)]"
proof -
  from assms have "n < 10 ^ 9" by simp
  then have "appendInt n 9 = fixedWidth (7 + 2) n" by (simp add: appendInt_fixedWidth)
  then have "take 2 (appendInt n 9) = fixedWidth 2 (n div 10 ^ 7)" by (simp only: take2_fixedWidth)
  moreover have "n div 10 ^ 7 div 10 = n div 100000000" by (simp add: div_mult2_eq [symmetric])
  moreover have "n div 100000000 mod 10 = n div 100000000" using assms by simp
  ultimately show ?thesis by (simp add: numeral_2_eq_2)
qed

lemma clock_bounds: "Hour t < 24" "Minute t < 60" "Second t < 60" "Nanosecond t < 1000000000"
proof -
  have "wall_clock t div 1000000000 mod 86400 < 86400" by simp
  then have "wall_clock t div 1000000000 mod 86400 div 3600 < 24" by (simp only: less_mult_imp_div_less)
  then show "Hour t < 24" by (simp add: Hour_def)
  have "wall_clock t div 1000000000 mod 3600 < 3600" by simp
  then have "wall_clock t div 1000000000 mod 3600 div 60 < 60" by (simp only: less_mult_imp_div_less)
  then show "Minute t < 60" by (simp add: Minute_def)
  show "Second t < 60" by (simp add: Second_def)
  show "Nanosecond t < 1000000000" by (simp add: Nanosecond_def)
qed

lemma Centisecond_lt: "Centisecond t < 100"
proof -
  have "Nanosecond t < 100 * 10000000" using clock_bounds(4) [of t] by simp
  then show ?thesis unfolding Centisecond_def by (simp only: less_mult_imp_div_less)
qed

lemma Format_150405_eq:
  "Format_150405 t =
     [digit (Hour t div 10), digit (Hour t mod 10), CHR '':'',
      digit (Minute t div 10), digit (Minute t mod 10), CHR '':'',
      digit (Second t div 10), digit (Second t mod 10)]"
proof -
  have "Hour t < 100" "Minute t < 100" "Second t < 100"
    using clock_bounds(1-3) [of t] by simp_all
  then show ?thesis by (simp add: Format_150405_def appendInt_2)
qed

lemma Format_150405_00_eq:
  "Format_150405_00 t =
     [digit (Hour t div 10), digit (Hour t mod 10), CHR '':'',
      digit (Minute t div 10), digit (Minute t mod 10), CHR '':'',
      digit (Second t div 10), digit (Second t mod 10), CHR ''.'',
      digit (Centisecond t div 10), digit (Centisecond t mod 10)]"
proof -
  have "Nanosecond t div 10000000 div 10 = Nanosecond t div 100000000"
    by (simp add: div_mult2_eq [symmetric])
  then show ?thesis
    by (simp add: Format_150405_00_def Format_150405_eq take2_appendInt_9 clock_bounds
        Centisecond_def)
qed

lemma digit_less: "a < 10 \<Longrightarrow> b < 10 \<Longrightarrow> digit a < digit b \<longleftrightarrow> a < b"
  by (simp add: digit_def less_char_def)

lemma digit_eq: "a < 10 \<Longrightarrow> b < 10 \<Longrightarrow> digit a = digit b \<longleftrightarrow> a = b"
proof -
  assume a: "a < 10" "b < 10"
  have "digit a = digit b \<longleftrightarrow> (of_char (digit a) :: nat) = of_char (digit b)"
    by (simp only: of_char_eq_iff)
  also have "\<dots> \<longleftrightarrow> a = b" using a by (simp add: digit_def)
  finally show ?thesis .
qed

lemma char_eqI: "(of_char c :: nat) = of_char d \<Longrightarrow> c = d"
  by simp

lemma digit_chars:
  "digit 0 = CHR ''0''" "digit 1 = CHR ''1''" "digit 2 = CHR ''2''" "digit 3 = CHR ''3''"
  "digit 4 = CHR ''4''" "digit 5 = CHR ''5''" "digit 6 = CHR ''6''" "digit 7 = CHR ''7''"
  "digit 8 = CHR ''8''" "digit 9 = CHR ''9''" "digit (Suc 0) = CHR ''1''"
  by (rule char_eqI, simp add: digit_def)+

subsection \<open>The order of the labels\<close>

lemma block_less:
  fixes p q r s k :: nat
  assumes "r < k" "p < q"
  shows "k * p + r < k * q + s"
proof -
  from assms(2) have "Suc p \<le> q" by simp
  then have "k * Suc p \<le> k * q" by (rule mult_le_mono2)
  moreover have "k * p + r < k * Suc p" using assms(1) by simp
  ultimately show ?thesis by linarith
qed

lemma block_order:
  fixes p q r s k :: nat
  assumes "r < k" "s < k"
  shows "(k * p + r < k * q + s \<or> k * p + r = k * q + s \<and> P)
     \<longleftrightarrow> (p < q \<or> p = q \<and> (r < s \<or> r = s \<and> P))"
proof (cases p q rule: linorder_cases)
  case less
  with block_less [OF assms(1) less, of s] show ?thesis by simp
next
  case equal
  then show ?thesis by auto
next
  case greater
  with block_less [OF assms(2) greater, of r] show ?thesis by auto
qed

lemma two_digit_order:
  "(a::nat) div 10 < b div 10 \<or> a div 10 = b div 10 \<and> (a mod 10 < b mod 10 \<or> a mod 10 = b mod 10 \<and> P)
     \<longleftrightarrow> a < b \<or> a = b \<and> P"
proof -
  have "a mod 10 < 10" "b mod 10 < 10" by simp_all
  from block_order [OF this, of "a div 10" "b div 10" P] show ?thesis by simp
qed

lemma two_digits_less:
  assumes "a < 100" "b < 100"
  shows "digit (a div 10) # digit (a mod 10) # xs < digit (b div 10) # digit (b mod 10) # ys
     \<longleftrightarrow> a < b \<or> a = b \<and> xs < ys"
proof -
  have d: "a div 10 < 10" "b div 10 < 10" "a mod 10 < 10" "b mod 10 < 10"
    using assms by simp_all
  have "digit (a div 10) # digit (a mod 10) # xs < digit (b div 10) # digit (b mod 10) # ys
     \<longleftrightarrow> a div 10 < b div 10 \<or> a div 10 = b div 10 \<and>
          (a mod 10 < b mod 10 \<or> a mod 10 = b mod 10 \<and> xs < ys)"
    by (simp add: digit_less digit_eq d)
  also have "\<dots> \<longleftrightarrow> a < b \<or> a = b \<and> xs < ys"
    by (rule two_digit_order)
  finally show ?thesis .
qed

lemma same_head_less: "c # xs < c # ys \<longleftrightarrow> xs < (ys :: string)"
  by simp

lemma Format_150405_less:
  "Format_150405 t1 < Format_150405 t2 \<longleftrightarrow> day_seconds t1 < day_seconds t2"
proof -
  have b: "Hour t1 < 100" "Minute t1 < 100" "Second t1 < 100"
     "Hour t2 < 100" "Minute t2 < 100" "Second t2 < 100"
    using clock_bounds(1-3) [of t1] clock_bounds(1-3) [of t2] by simp_all
  have "Format_150405 t1 < Format_150405 t2 \<longleftrightarrow>
      Hour t1 < Hour t2 \<or> Hour t1 = Hour t2 \<and>
        (Minute t1 < Minute t2 \<or> Minute t1 = Minute t2 \<and> Second t1 < Second t2)"
    by (simp add: Format_150405_eq two_digits_less same_head_less b del: Cons_less_Cons)
  also have "\<dots> \<longleftrightarrow> Hour t1 < Hour t2 \<or> Hour t1 = Hour t2 \<and>
        (60 * Minute t1 + Second t1 < 60 * Minute t2 + Second t2
         \<or> 60 * Minute t1 + Second t1 = 60 * Minute t2 + Second t2 \<and> False)"
    using block_order [OF clock_bounds(3) clock_bounds(3), of "Minute t1" t1 "Minute t2" t2 False]
    by simp
  also have "\<dots> \<longleftrightarrow> 3600 * Hour t1 + (60 * Minute t1 + Second t1)
        < 3600 * Hour t2 + (60 * Minute t2 + Second t2)
       \<or> 3600 * Hour t1 + (60 * Minute t1 + Second t1)
        = 3600 * Hour t2 + (60 * Minute t2 + Second t2) \<and> False"
  proof -
    have "60 * Minute t1 + Second t1 < 3600" "60 * Minute t2 + Second t2 < 3600"
      using clock_bounds(2,3) [of t1] clock_bounds(2,3) [of t2] by linarith+
    from block_order [OF this, of "Hour t1" "Hour t2" False] show ?thesis by simp
  qed
  also have "\<dots> \<longleftrightarrow> day_seconds t1 < day_seconds t2"
    by (simp add: day_seconds_def algebra_simps)
  finally show ?thesis .
qed

lemma Format_150405_00_less:
  "Format_150405_00 t1 < Format_150405_00 t2 \<longleftrightarrow> day_centis t1 < day_centis t2"
proof -
  have b: "Hour t1 < 100" "Minute t1 < 100" "Second t1 < 100"
     "Hour t2 < 100" "Minute t2 < 100" "Second t2 < 100"
    using clock_bounds(1-3) [of t1] clock_bounds(1-3) [of t2] by simp_all
  have c: "Centisecond t1 < 100" "Centisecond t2 < 100" by (rule Centisecond_lt)+
  have "Format_150405_00 t1 < Format_150405_00 t2 \<longleftrightarrow>
      Hour t1 < Hour t2 \<or> Hour t1 = Hour t2 \<and>
        (Minute t1 < Minute t2 \<or> Minute t1 = Minute t2 \<and>
          (Second t1 < Second t2 \<or> Second t1 = Second t2 \<and> Centisecond t1 < Centisecond t2))"
    by (simp add: Format_150405_00_eq two_digits_less same_head_less b c del: Cons_less_Cons)
  also have "\<dots> \<longleftrightarrow> Hour t1 < Hour t2 \<or> Hour t1 = Hour t2 \<and>
        (Minute t1 < Minute t2 \<or> Minute t1 = Minute t2 \<and>
          (100 * Second t1 + Centisecond t1 < 100 * Second t2 + Centisecond t2
           \<or> 100 * Second t1 + Centisecond t1 = 100 * Second t2 + Centisecond t2 \<and> False))"
    using block_order [OF c, of "Second t1" "Second t2" False] by simp
  also have "\<dots> \<longleftrightarrow> Hour t1 < Hour t2 \<or> Hour t1 = Hour t2 \<and>
        (6000 * Minute t1 + (100 * Second t1 + Centisecond t1)
           < 6000 * Minute t2 + (100 * Second t2 + Centisecond t2)
         \<or> 6000 * Minute t1 + (100 * Second t1 + Centisecond t1)
           = 6000 * Minute t2 + (100 * Second t2 + Centisecond t2) \<and> False)"
  proof -
    have "100 * Second t1 + Centisecond t1 < 6000" "100 * Second t2 + Centisecond t2 < 6000"
      using clock_bounds(3) [of t1] clock_bounds(3) [of t2] c by linarith+
    from block_order [OF this, of "Minute t1" "Minute t2" False] show ?thesis by simp
  qed
  also have "\<dots> \<longleftrightarrow>
       360000 * Hour t1 + (6000 * Minute t1 + (100 * Second t1 + Centisecond t1))
         < 360000 * Hour t2 + (6000 * Minute t2 + (100 * Second t2 + Centisecond t2))
       \<or> 360000 * Hour t1 + (6000 * Minute t1 + (100 * Second t1 + Centisecond t1))
         = 360000 * Hour t2 + (6000 * Minute t2 + (100 * Second t2 + Centisecond t2)) \<and> False"
  proof -
    have "6000 * Minute t1 + (100 * Second t1 + Centisecond t1) < 360000"
      "6000 * Minute t2 + (100 * Second t2 + Centisecond t2) < 360000"
      using clock_bounds(2,3) [of t1] clock_bounds(2,3) [of t2] c by linarith+
    from block_order [OF this, of "Hour t1" "Hour t2" False] show ?thesis by simp
  qed
  also have "\<dots> \<longleftrightarrow> day_centis t1 < day_centis t2"
    by (simp add: day_centis_def algebra_simps)
  finally show ?thesis .
qed

lemma day_seconds_eq: "day_seconds t = wall_clock t div 1000000000 mod 86400"
proof -
  let ?q = "wall_clock t div 1000000000"
  have "?q mod 86400 = 3600 * (?q mod 86400 div 3600) + ?q mod 86400 mod 3600" by simp
  also have "?q mod 86400 mod 3600 = ?q mod 3600" by (simp add: mod_mod_cancel)
  also have "?q mod 3600 = 60 * (?q mod 3600 div 60) + ?q mod 3600 mod 60" by simp
  also have "?q mod 3600 mod 60 = ?q mod 60" by (simp add: mod_mod_cancel)
  finally show ?thesis by (simp add: day_seconds_def Hour_def Minute_def Second_def)
qed

lemma Centisecond_eq: "Centisecond t = wall_clock t div 10000000 mod 100"
proof -
  have "wall_clock t mod (10000000 * 100) = 10000000 * (wall_clock t div 10000000 mod 100) + wall_clock t mod 10000000"
    by (rule mod_mult2_eq)
  then show ?thesis by (simp add: Centisecond_def Nanosecond_def)
qed

lemma day_centis_eq: "day_centis t = wall_clock t div 10000000 mod 8640000"
proof -
  let ?x = "wall_clock t div 10000000"
  have q: "wall_clock t div 1000000000 = ?x div 100" by (simp add: div_mult2_eq [symmetric])
  have "?x mod (100 * 86400) = 100 * (?x div 100 mod 86400) + ?x mod 100"
    by (rule mod_mult2_eq)
  then show ?thesis
    using day_seconds_eq [of t] by (simp add: day_centis_def day_seconds_def Centisecond_eq q)
qed

lemma same_quotient_less:
  fixes x y d :: nat
  assumes "x div d = y div d"
  shows "x mod d < y mod d \<longleftrightarrow> x < y"
proof -
  have "x = d * (x div d) + x mod d" "y = d * (y div d) + y mod d" by simp_all
  with assms show ?thesis by (metis nat_add_left_cancel_less)
qed

lemma same_day_centis: "same_day t1 t2 \<Longrightarrow> wall_clock t1 div 10000000 div 8640000 = wall_clock t2 div 10000000 div 8640000"
  by (simp add: same_day_def div_mult2_eq [symmetric])

lemma same_day_seconds: "same_day t1 t2 \<Longrightarrow> wall_clock t1 div 1000000000 div 86400 = wall_clock t2 div 1000000000 div 86400"
  by (simp add: same_day_def div_mult2_eq [symmetric])

lemma Format_150405_00_order:
  assumes "same_day t1 t2"
  shows "Format_150405_00 t1 < Format_150405_00 t2 \<longleftrightarrow> wall_clock t1 div 10000000 < wall_clock t2 div 10000000"
  using same_quotient_less [OF same_day_centis [OF assms]]
  by (simp add: Format_150405_00_less day_centis_eq)

lemma Format_150405_order:
  assumes "same_day t1 t2"
  shows "Format_150405 t1 < Format_150405 t2 \<longleftrightarrow> wall_clock t1 div 1000000000 < wall_clock t2 div 1000000000"
  using same_quotient_less [OF same_day_seconds [OF assms]]
  by (simp add: Format_150405_less day_seconds_eq)

lemma Format_mono:
  assumes "same_day t1 t2" "wall_clock t1 \<le> wall_clock t2"
  shows "Format_150405_00 t1 \<le> Format_150405_00 t2" "Format_150405 t1 \<le> Format_150405 t2"
proof -
  have s: "same_day t2 t1" using assms(1) by (simp add: same_day_def)
  have "\<not> wall_clock t2 div 10000000 < wall_clock t1 div 10000000" using assms(2) by (simp add: div_le_mono not_less)
  then have "\<not> Format_150405_00 t2 < Format_150405_00 t1"
    by (simp add: Format_150405_00_order [OF s])
  then show "Format_150405_00 t1 \<le> Format_150405_00 t2" by (simp only: not_less)
  have "\<not> wall_clock t2 div 1000000000 < wall_clock t1 div 1000000000" using assms(2) by (simp add: div_le_mono not_less)
  then have "\<not> Format_150405 t2 < Format_150405 t1"
    by (simp add: Format_150405_order [OF s])
  then show "Format_150405 t1 \<le> Format_150405 t2" by (simp only: not_less)
qed

lemma wall_clock_mono:
  assumes "instant t1 \<le> instant t2" "offset t1 \<le> offset t2"
  shows "wall_clock t1 \<le> wall_clock t2"
proof -
  have "offset t1 * 1000000000 \<le> offset t2 * 1000000000" using assms(2) by simp
  then have "int (instant t1) + offset t1 * 1000000000 \<le> int (instant t2) + offset t2 * 1000000000"
    using assms(1) by linarith
  then show ?thesis unfolding wall_clock_def by (rule nat_mono)
qed

text \<open>
  Claim C7, amended. For every instant the first argument of the time label is the
  reading of the local wall clock at that instant, at a fixed width: two digits each for
  the hour (below 24), the minute and the second (below 60), separated by colons, and in
  \<^verbatim>\<open>part_000\<close> a dot and the two digits of the hundredths of the second. For two instants
  whose readings lie in the same day, the label of the second is greater in the order of
  strings exactly when its reading lies in a later hundredth of a second (\<^verbatim>\<open>part_000\<close>) or
  in a later second (\<^verbatim>\<open>server.go\<close>); and when the second instant is not earlier and the
  offset of the zone has not decreased from the first to the second (the wall clock was
  not set back), the label of the second is never smaller.
\<close>

theorem time_label_format_and_order:
  "Arg1 (timeLabel t) =
     [digit (Hour t div 10), digit (Hour t mod 10), CHR '':'',
      digit (Minute t div 10), digit (Minute t mod 10), CHR '':'',
      digit (Second t div 10), digit (Second t mod 10), CHR ''.'',
      digit (Nanosecond t div 100000000), digit (Nanosecond t div 10000000 mod 10)]
   \<and> Arg1 (timeLabel_server t) =
     [digit (Hour t div 10), digit (Hour t mod 10), CHR '':'',
      digit (Minute t div 10), digit (Minute t mod 10), CHR '':'',
      digit (Second t div 10), digit (Second t mod 10)]
   \<and> Hour t < 24 \<and> Minute t < 60 \<and> Second t < 60 \<and> Nanosecond t < 1000000000
   \<and> (same_day t1 t2 \<longrightarrow>
        (Arg1 (timeLabel t1) < Arg1 (timeLabel t2)
           \<longleftrightarrow> wall_clock t1 div 10000000 < wall_clock t2 div 10000000)
        \<and> (Arg1 (timeLabel_server t1) < Arg1 (timeLabel_server t2)
             \<longleftrightarrow> wall_clock t1 div 1000000000 < wall_clock t2 div 1000000000)
        \<and> (instant t1 \<le> instant t2 \<and> offset t1 \<le> offset t2 \<longrightarrow>
              Arg1 (timeLabel t1) \<le> Arg1 (timeLabel t2)
              \<and> Arg1 (timeLabel_server t1) \<le> Arg1 (timeLabel_server t2)))"
proof -
  have "Nanosecond t div 10000000 div 10 = Nanosecond t div 100000000"
    by (simp add: div_mult2_eq [symmetric])
  then have f: "Arg1 (timeLabel t) =
     [digit (Hour t div 10), digit (Hour t mod 10), CHR '':'',
      digit (Minute t div 10), digit (Minute t mod 10), CHR '':'',
      digit (Second t div 10), digit (Second t mod 10), CHR ''.'',
      digit (Nanosecond t div 100000000), digit (Nanosecond t div 10000000 mod 10)]"
    by (simp add: timeLabel_def Format_150405_00_eq Centisecond_def)
  have g: "Arg1 (timeLabel_server t) =
     [digit (Hour t div 10), digit (Hour t mod 10), CHR '':'',
      digit (Minute t div 10), digit (Minute t mod 10), CHR '':'',
      digit (Second t div 10), digit (Second t mod 10)]"
    by (simp add: timeLabel_server_def Format_150405_eq)
  have o: "same_day t1 t2 \<longrightarrow>
        (Arg1 (timeLabel t1) < Arg1 (timeLabel t2)
           \<longleftrightarrow> wall_clock t1 div 10000000 < wall_clock t2 div 10000000)
        \<and> (Arg1 (timeLabel_server t1) < Arg1 (timeLabel_server t2)
             \<longleftrightarrow> wall_clock t1 div 1000000000 < wall_clock t2 div 1000000000)
        \<and> (instant t1 \<le> instant t2 \<and> offset t1 \<le> offset t2 \<longrightarrow>
              Arg1 (timeLabel t1) \<le> Arg1 (timeLabel t2)
              \<and> Arg1 (timeLabel_server t1) \<le> Arg1 (timeLabel_server t2))"
    by (simp add: timeLabel_def timeLabel_server_def Format_150405_00_order Format_150405_order
        Format_mono wall_clock_mono)
  from f g clock_bounds [of t] o show ?thesis by (intro conjI)
qed

text \<open>
  A run in a zone two hours east of UTC: the tick at 12:34:56.78 and the next one, twenty
  milliseconds later.
\<close>

theorem time_label_format_and_order_witness:
  "Arg1 (timeLabel \<lparr>instant = 38096780000000, offset = 7200\<rparr>) = ''12:34:56.78''
   \<and> Arg1 (timeLabel_server \<lparr>instant = 38096780000000, offset = 7200\<rparr>) = ''12:34:56''
   \<and> same_day \<lparr>instant = 38096780000000, offset = 7200\<rparr>
        \<lparr>instant = 38096800000000, offset = 7200\<rparr>
   \<and> instant \<lparr>instant = 38096780000000, offset = 7200\<rparr>
        \<le> instant \<lparr>instant = 38096800000000, offset = 7200\<rparr>
   \<and> offset \<lparr>instant = 38096780000000, offset = 7200\<rparr>
        \<le> offset \<lparr>instant = 38096800000000, offset = 7200\<rparr>
   \<and> Arg1 (timeLabel \<lparr>instant = 38096780000000, offset = 7200\<rparr>)
        < Arg1 (timeLabel \<lparr>instant = 38096800000000, offset = 7200\<rparr>)
   \<and> \<not> Arg1 (timeLabel_server \<lparr>instant = 38096780000000, offset = 7200\<rparr>)
        < Arg1 (timeLabel_server \<lparr>instant = 38096800000000, offset = 7200\<rparr>)
   \<and> Arg1 (timeLabel_server \<lparr>instant = 38096780000000, offset = 7200\<rparr>)
        \<le> Arg1 (timeLabel_server \<lparr>instant = 38096800000000, offset = 7200\<rparr>)"
proof -
  let ?t1 = "\<lparr>instant = 38096780000000, offset = 7200\<rparr>"
  let ?t2 = "\<lparr>instant = 38096800000000, offset = 7200\<rparr>"
  note T = time_label_format_and_order [of ?t1 ?t1 ?t2]
  have w: "wall_clock ?t1 = 45296780000000" "wall_clock ?t2 = 45296800000000"
    by (simp_all add: wall_clock_def)
  have s: "same_day ?t1 ?t2" by (simp add: same_day_def w)
  have i: "instant ?t1 \<le> instant ?t2" "offset ?t1 \<le> offset ?t2" by simp_all
  have a: "Arg1 (timeLabel ?t1) = ''12:34:56.78''"
    using T [THEN conjunct1]
    by (simp add: Hour_def Minute_def Second_def Nanosecond_def w digit_chars)
  have b: "Arg1 (timeLabel_server ?t1) = ''12:34:56''"
    using T [THEN conjunct2, THEN conjunct1]
    by (simp add: Hour_def Minute_def Second_def w digit_chars)
  note O = T [THEN conjunct2, THEN conjunct2, THEN conjunct2, THEN conjunct2, THEN conjunct2,
    THEN conjunct2, THEN mp, OF s]
  have c: "Arg1 (timeLabel ?t1) < Arg1 (timeLabel ?t2)"
    "\<not> Arg1 (timeLabel_server ?t1) < Arg1 (timeLabel_server ?t2)"
    using O by (simp_all add: w)
  have d: "Arg1 (timeLabel_server ?t1) \<le> Arg1 (timeLabel_server ?t2)"
    using O i by blast
  from a b s i c d show ?thesis by (intro conjI)
qed

text \<open>
  Claim C7 fails as stated in two ways. Two instants the label cannot tell apart: in a
  zone with offset zero, five milliseconds after 12:34:56.78 the label of \<^verbatim>\<open>part_000\<close> is
  the same string, and twenty milliseconds after it the label of \<^verbatim>\<open>server.go\<close> is the same
  string, so the later label is not greater. And a wall clock that is set back: in a zone
  that goes from two hours to one hour east of UTC, the instant one second after
  02:59:59 reads 02:00:00 on the same day, and its label is smaller in both variants.
\<close>

theorem later_instant_same_label:
  "same_day (utc 45296780000000) (utc 45296785000000)
   \<and> instant (utc 45296780000000) < instant (utc 45296785000000)
   \<and> Arg1 (timeLabel (utc 45296780000000)) = ''12:34:56.78''
   \<and> Arg1 (timeLabel (utc 45296785000000)) = ''12:34:56.78''
   \<and> \<not> Arg1 (timeLabel (utc 45296780000000)) < Arg1 (timeLabel (utc 45296785000000))
   \<and> same_day (utc 45296780000000) (utc 45296800000000)
   \<and> instant (utc 45296780000000) < instant (utc 45296800000000)
   \<and> Arg1 (timeLabel_server (utc 45296780000000)) = ''12:34:56''
   \<and> Arg1 (timeLabel_server (utc 45296800000000)) = ''12:34:56''
   \<and> \<not> Arg1 (timeLabel_server (utc 45296780000000))
        < Arg1 (timeLabel_server (utc 45296800000000))
   \<and> same_day \<lparr>instant = 3599000000000, offset = 7200\<rparr>
        \<lparr>instant = 3600000000000, offset = 3600\<rparr>
   \<and> instant \<lparr>instant = 3599000000000, offset = 7200\<rparr>
        < instant \<lparr>instant = 3600000000000, offset = 3600\<rparr>
   \<and> Arg1 (timeLabel \<lparr>instant = 3599000000000, offset = 7200\<rparr>) = ''02:59:59.00''
   \<and> Arg1 (timeLabel \<lparr>instant = 3600000000000, offset = 3600\<rparr>) = ''02:00:00.00''
   \<and> Arg1 (timeLabel \<lparr>instant = 3600000000000, offset = 3600\<rparr>)
        < Arg1 (timeLabel \<lparr>instant = 3599000000000, offset = 7200\<rparr>)
   \<and> Arg1 (timeLabel_server \<lparr>instant = 3599000000000, offset = 7200\<rparr>) = ''02:59:59''
   \<and> Arg1 (timeLabel_server \<lparr>instant = 3600000000000, offset = 3600\<rparr>) = ''02:00:00''
   \<and> Arg1 (timeLabel_server \<lparr>instant = 3600000000000, offset = 3600\<rparr>)
        < Arg1 (timeLabel_server \<lparr>instant = 3599000000000, offset = 7200\<rparr>)"
proof -
  have w: "wall_clock (utc 45296780000000) = 45296780000000"
    "wall_clock (utc 45296785000000) = 45296785000000"
    "wall_clock (utc 45296800000000) = 45296800000000"
    "wall_clock \<lparr>instant = 3599000000000, offset = 7200\<rparr> = 10799000000000"
    "wall_clock \<lparr>instant = 3600000000000, offset = 3600\<rparr> = 7200000000000"
    by (simp_all add: wall_clock_def utc_def)
  have i: "instant (utc 45296780000000) < instant (utc 45296785000000)"
    "instant (utc 45296780000000) < instant (utc 45296800000000)"
    by (simp_all add: utc_def)
  show ?thesis
    by (simp add: i same_day_def timeLabel_def timeLabel_server_def Format_150405_00_eq
        Format_150405_eq Hour_def Minute_def Second_def Centisecond_def Nanosecond_def w
        digit_chars less_char_def)
qed

end
